theory Spec2Isabelle
  imports Complex_Main
begin

section \<open>JavaScript values and strings\<close>

text \<open>
  A JavaScript string is the list of its code units. The embedding keeps one
  Isabelle character per code unit, so it covers the texts whose code units are
  below 256; nothing the handlers decide depends on a code unit above that.

  \<open>truthy_string\<close> is JavaScript's truthiness of a string (only the empty string is
  falsy), \<open>or_string\<close> is \<open>a || b\<close> for an optional string on the left (absent
  means \<open>undefined\<close> or \<open>null\<close>).
\<close>

definition dquote :: char where
  "dquote = CHR 0x22"

definition backslash :: char where
  "backslash = CHR 0x5C"

definition newline :: char where
  "newline = CHR 0x0A"

definition truthy_string :: "string option \<Rightarrow> bool" where
  "truthy_string s = (case s of None \<Rightarrow> False | Some t \<Rightarrow> t \<noteq> [])"

definition or_string :: "string option \<Rightarrow> string \<Rightarrow> string" where
  "or_string s d = (case s of None \<Rightarrow> d | Some t \<Rightarrow> if t = [] then d else t)"

text \<open>\<open>String.prototype.startsWith\<close> and \<open>String.prototype.includes\<close>.\<close>

fun startsWith :: "string \<Rightarrow> string \<Rightarrow> bool" where
  "startsWith s [] = True"
| "startsWith [] (p # ps) = False"
| "startsWith (c # cs) (p # ps) = (c = p \<and> startsWith cs ps)"

fun includes_str :: "string \<Rightarrow> string \<Rightarrow> bool" where
  "includes_str [] sub = (sub = [])"
| "includes_str (c # cs) sub = (startsWith (c # cs) sub \<or> includes_str cs sub)"

text \<open>
  White space as \<open>String.prototype.trim\<close> and the regular-expression class
  \<open>\s\<close> see it, among the code units below 256: tab, line feed, vertical tab, form
  feed, carriage return, space and no-break space.
\<close>

definition is_space :: "char \<Rightarrow> bool" where
  "is_space c = ((of_char c :: nat) \<in> {9, 10, 11, 12, 13, 32, 160})"

definition trim :: "string \<Rightarrow> string" where
  "trim s = rev (dropWhile is_space (rev (dropWhile is_space s)))"

text \<open>\<open>Array.prototype.join\<close> on an array of strings.\<close>

fun join :: "string list \<Rightarrow> string \<Rightarrow> string" where
  "join [] sep = []"
| "join [x] sep = x"
| "join (x # y # ys) sep = x @ sep @ join (y # ys) sep"

subsection \<open>Values produced by \<open>JSON.parse\<close>\<close>

text \<open>
  A number is kept as the exact rational its literal denotes. The only thing the
  handlers ask of a number is whether it is falsy, that is whether the literal
  rounds to zero as a double: the smallest positive double is \<open>2 ^ -1074\<close>, and
  round-to-nearest-even sends exactly the magnitudes up to \<open>2 ^ -1075\<close> to zero.
  The rounding of other literals to 53 bits and the overflow of a literal beyond
  the double range to \<open>Infinity\<close> (truthy, and written as \<open>null\<close> when a response
  is serialized) are not represented: a number stands for the literal the
  backend wrote, not for the digits a response would print.
  An object keeps its members in source order; a repeated key reads as its last
  occurrence.
\<close>

datatype json =
    JNull
  | JBool bool
  | JNum rat
  | JStr string
  | JArr "json list"
  | JObj "(string \<times> json) list"

fun truthy :: "json \<Rightarrow> bool" where
  "truthy JNull = False"
| "truthy (JBool b) = b"
| "truthy (JNum q) = (\<bar>q\<bar> > 1 / 2 ^ 1075)"
| "truthy (JStr s) = (s \<noteq> [])"
| "truthy (JArr xs) = True"
| "truthy (JObj kvs) = True"

text \<open>What a handler can throw: an \<open>Error\<close> object it built or received, the
  \<open>SyntaxError\<close> of \<open>JSON.parse\<close> on a text, the \<open>TypeError\<close> of reading a property
  of \<open>null\<close>.\<close>

record js_error =
  message :: "string option"
  status :: "int option"
  stack :: "string option"

datatype thrown =
    Error js_error
  | SyntaxError string
  | TypeError string

text \<open>
  \<open>result.key\<close> for the keys the handlers read (\<open>errorExplanation\<close>, \<open>explanation\<close>,
  \<open>reasoning\<close>, \<open>reason\<close>, \<open>fixedCode\<close>, \<open>code\<close>, \<open>correctedCode\<close>): none of them is a
  property of the prototypes of strings, numbers, booleans, arrays or objects, so
  the read is \<open>undefined\<close> unless the value is an object with that member; on
  \<open>null\<close> it throws.
\<close>

fun get_prop :: "json \<Rightarrow> string \<Rightarrow> thrown + json option" where
  "get_prop JNull k = Inl (TypeError k)"
| "get_prop (JObj kvs) k = Inr (map_of (rev kvs) k)"
| "get_prop v k = Inr None"

section \<open>\<open>JSON.parse\<close>\<close>

datatype token =
    TLBrace | TRBrace | TLBracket | TRBracket | TColon | TComma
  | TString string | TNumber rat | TTrue | TFalse | TNull

definition is_digit :: "char \<Rightarrow> bool" where
  "is_digit c = (48 \<le> (of_char c :: nat) \<and> (of_char c :: nat) \<le> 57)"

definition digits_val :: "string \<Rightarrow> nat" where
  "digits_val ds = foldl (\<lambda>a c. 10 * a + ((of_char c :: nat) - 48)) 0 ds"

definition hex_val :: "char \<Rightarrow> nat option" where
  "hex_val c =
     (let n = (of_char c :: nat) in
      if 48 \<le> n \<and> n \<le> 57 then Some (n - 48)
      else if 65 \<le> n \<and> n \<le> 70 then Some (n - 55)
      else if 97 \<le> n \<and> n \<le> 102 then Some (n - 87)
      else None)"

definition hex4 :: "char \<Rightarrow> char \<Rightarrow> char \<Rightarrow> char \<Rightarrow> nat option" where
  "hex4 a b c d =
     (case (hex_val a, hex_val b, hex_val c, hex_val d) of
        (Some w, Some x, Some y, Some z) \<Rightarrow> Some (((w * 16 + x) * 16 + y) * 16 + z)
      | _ \<Rightarrow> None)"

definition unescape :: "char \<Rightarrow> char option" where
  "unescape e =
     (if e = dquote then Some dquote
      else if e = backslash then Some backslash
      else if e = CHR ''/'' then Some (CHR ''/'')
      else if e = CHR ''b'' then Some (CHR 0x08)
      else if e = CHR ''f'' then Some (CHR 0x0C)
      else if e = CHR ''n'' then Some (CHR 0x0A)
      else if e = CHR ''r'' then Some (CHR 0x0D)
      else if e = CHR ''t'' then Some (CHR 0x09)
      else None)"

text \<open>
  The body of a string literal, read after its opening quote: the decoded string
  and the number of characters read, closing quote included. A \<open>\u\<close> escape
  denoting a code unit above 255 lies outside the embedding: it is read modulo
  256, which keeps the length of the string but not its identity, so texts
  with such escapes are not covered.
\<close>

fun lex_string :: "string \<Rightarrow> (string \<times> nat) option" where
  "lex_string [] = None"
| "lex_string (c # cs) =
     (if c = dquote then Some ([], 1)
      else if c = backslash then
        (case cs of
           [] \<Rightarrow> None
         | e # cs' \<Rightarrow>
             if e = CHR ''u'' then
               (case cs' of
                  h1 # h2 # h3 # h4 # cs'' \<Rightarrow>
                    (case hex4 h1 h2 h3 h4 of
                       None \<Rightarrow> None
                     | Some n \<Rightarrow> map_option (\<lambda>(s, k). (char_of n # s, k + 6)) (lex_string cs''))
                | _ \<Rightarrow> None)
             else
               (case unescape e of
                  None \<Rightarrow> None
                | Some x \<Rightarrow> map_option (\<lambda>(s, k). (x # s, k + 2)) (lex_string cs')))
      else if (of_char c :: nat) < 32 then None
      else map_option (\<lambda>(s, k). (c # s, k + 1)) (lex_string cs))"

text \<open>
  A number literal at the head of the text: its value and its length. The
  grammar is \<open>-? (0 | [1-9][0-9]*) (. [0-9]+)? ([eE] [+-]? [0-9]+)?\<close>.
\<close>

definition scale10 :: "rat \<Rightarrow> int \<Rightarrow> rat" where
  "scale10 q e = (if 0 \<le> e then q * 10 ^ nat e else q / 10 ^ nat (- e))"

definition lex_exponent :: "string \<Rightarrow> (int \<times> nat) option" where
  "lex_exponent s =
     (case s of
        [] \<Rightarrow> Some (0, 0)
      | e # r \<Rightarrow>
          if e = CHR ''e'' \<or> e = CHR ''E'' then
            (let neg = (case r of [] \<Rightarrow> False | g # _ \<Rightarrow> g = CHR ''-'');
                 signed = (case r of [] \<Rightarrow> False | g # _ \<Rightarrow> g = CHR ''-'' \<or> g = CHR ''+'');
                 r' = (if signed then tl r else r);
                 ds = takeWhile is_digit r'
             in if ds = [] then None
                else Some ((if neg then - int (digits_val ds) else int (digits_val ds)),
                           1 + (if signed then 1 else 0) + length ds))
          else Some (0, 0))"

definition lex_fraction :: "string \<Rightarrow> (rat \<times> nat) option" where
  "lex_fraction s =
     (case s of
        [] \<Rightarrow> Some (0, 0)
      | d # r \<Rightarrow>
          if d = CHR ''.'' then
            (let ds = takeWhile is_digit r
             in if ds = [] then None
                else Some (of_nat (digits_val ds) / 10 ^ length ds, 1 + length ds))
          else Some (0, 0))"

definition lex_number :: "string \<Rightarrow> (rat \<times> nat) option" where
  "lex_number s =
     (let neg = (case s of [] \<Rightarrow> False | g # _ \<Rightarrow> g = CHR ''-'');
          s1 = (if neg then tl s else s);
          ip = takeWhile is_digit s1
      in if ip = [] \<or> (1 < length ip \<and> hd ip = CHR ''0'') then None
         else
           (case lex_fraction (drop (length ip) s1) of
              None \<Rightarrow> None
            | Some (f, kf) \<Rightarrow>
                (case lex_exponent (drop (length ip + kf) s1) of
                   None \<Rightarrow> None
                 | Some (e, ke) \<Rightarrow>
                     Some (scale10 ((if neg then - 1 else 1) * (of_nat (digits_val ip) + f)) e,
                           (if neg then 1 else 0) + length ip + kf + ke))))"

text \<open>JSON's own white space is space, tab, line feed and carriage return.\<close>

definition is_json_ws :: "char \<Rightarrow> bool" where
  "is_json_ws c = ((of_char c :: nat) \<in> {9, 10, 13, 32})"

fun lex :: "string \<Rightarrow> token list option" where
  "lex [] = Some []"
| "lex (c # cs) =
     (if is_json_ws c then lex cs
      else if c = CHR ''{'' then map_option ((#) TLBrace) (lex cs)
      else if c = CHR ''}'' then map_option ((#) TRBrace) (lex cs)
      else if c = CHR ''['' then map_option ((#) TLBracket) (lex cs)
      else if c = CHR '']'' then map_option ((#) TRBracket) (lex cs)
      else if c = CHR '':'' then map_option ((#) TColon) (lex cs)
      else if c = CHR '','' then map_option ((#) TComma) (lex cs)
      else if c = dquote then
        (case lex_string cs of
           None \<Rightarrow> None
         | Some (s, k) \<Rightarrow> map_option ((#) (TString s)) (lex (drop k cs)))
      else if c = CHR ''-'' \<or> is_digit c then
        (case lex_number (c # cs) of
           None \<Rightarrow> None
         | Some (q, k) \<Rightarrow> map_option ((#) (TNumber q)) (lex (drop (k - 1) cs)))
      else if startsWith (c # cs) ''true'' then map_option ((#) TTrue) (lex (drop 3 cs))
      else if startsWith (c # cs) ''false'' then map_option ((#) TFalse) (lex (drop 4 cs))
      else if startsWith (c # cs) ''null'' then map_option ((#) TNull) (lex (drop 3 cs))
      else None)"

text \<open>
  The grammar of values, run over the tokens with an explicit stack of the
  containers that are open: an array with its elements so far (latest first), an
  object with its members so far and the key waiting for its value.
\<close>

datatype frame =
    FArr "json list"
  | FObj "(string \<times> json) list" "string option"

datatype expect =
    EValue
  | EValueOrClose
  | EKeyOrClose
  | EKey
  | EColon
  | ECommaOrClose
  | EDone

type_synonym pstate = "frame list \<times> expect \<times> json option"

fun deliver :: "json \<Rightarrow> frame list \<Rightarrow> pstate option" where
  "deliver v [] = Some ([], EDone, Some v)"
| "deliver v (FArr xs # st) = Some (FArr (v # xs) # st, ECommaOrClose, None)"
| "deliver v (FObj kvs (Some k) # st) = Some (FObj (kvs @ [(k, v)]) None # st, ECommaOrClose, None)"
| "deliver v (FObj kvs None # st) = None"

definition wants_value :: "expect \<Rightarrow> bool" where
  "wants_value e = (e = EValue \<or> e = EValueOrClose)"

fun pstep :: "pstate \<Rightarrow> token \<Rightarrow> pstate option" where
  "pstep (st, e, r) TNull = (if wants_value e then deliver JNull st else None)"
| "pstep (st, e, r) TTrue = (if wants_value e then deliver (JBool True) st else None)"
| "pstep (st, e, r) TFalse = (if wants_value e then deliver (JBool False) st else None)"
| "pstep (st, e, r) (TNumber q) = (if wants_value e then deliver (JNum q) st else None)"
| "pstep (st, e, r) (TString s) =
     (if wants_value e then deliver (JStr s) st
      else if e = EKey \<or> e = EKeyOrClose then
        (case st of
           FObj kvs None # st' \<Rightarrow> Some (FObj kvs (Some s) # st', EColon, None)
         | _ \<Rightarrow> None)
      else None)"
| "pstep (st, e, r) TLBracket =
     (if wants_value e then Some (FArr [] # st, EValueOrClose, None) else None)"
| "pstep (st, e, r) TLBrace =
     (if wants_value e then Some (FObj [] None # st, EKeyOrClose, None) else None)"
| "pstep (st, e, r) TRBracket =
     (if e = EValueOrClose \<or> e = ECommaOrClose then
        (case st of FArr xs # st' \<Rightarrow> deliver (JArr (rev xs)) st' | _ \<Rightarrow> None)
      else None)"
| "pstep (st, e, r) TRBrace =
     (if e = EKeyOrClose \<or> e = ECommaOrClose then
        (case st of FObj kvs None # st' \<Rightarrow> deliver (JObj kvs) st' | _ \<Rightarrow> None)
      else None)"
| "pstep (st, e, r) TComma =
     (if e = ECommaOrClose then
        (case st of
           FArr xs # st' \<Rightarrow> Some (st, EValue, None)
         | FObj kvs None # st' \<Rightarrow> Some (st, EKey, None)
         | _ \<Rightarrow> None)
      else None)"
| "pstep (st, e, r) TColon = (if e = EColon then Some (st, EValue, None) else None)"

fun prun :: "pstate \<Rightarrow> token list \<Rightarrow> json option" where
  "prun (st, e, r) [] = (if e = EDone \<and> st = [] then r else None)"
| "prun s (t # ts) = (case pstep s t of None \<Rightarrow> None | Some s' \<Rightarrow> prun s' ts)"

text \<open>\<open>JSON.parse text\<close>: the value, or the \<open>SyntaxError\<close> it throws.\<close>

definition JSON_parse :: "string \<Rightarrow> thrown + json" where
  "JSON_parse s =
     (case lex s of
        None \<Rightarrow> Inl (SyntaxError s)
      | Some ts \<Rightarrow>
          (case prun ([], EValue, None) ts of
             None \<Rightarrow> Inl (SyntaxError s)
           | Some v \<Rightarrow> Inr v))"

section \<open>Result recovery\<close>

text \<open>
  \<open>content.match(/```(?:json)?\s*(\{[\s\S]*\})\s*```/)\<close>. The match starts at
  the leftmost fence that can be completed. After the fence and an optional
  \<open>json\<close> all white space is skipped and a brace must follow (giving back
  \<open>json\<close> or white space cannot help: the brace would face a letter or a
  blank). The group is greedy: it runs to the last closing brace that white
  space and a fence follow. The function returns group 1, which starts with a
  brace and so is truthy: \<open>jsonMatch[1] || jsonMatch[0]\<close> is group 1.
\<close>

definition closes_fence :: "string \<Rightarrow> bool" where
  "closes_fence s = startsWith (dropWhile is_space s) ''```''"

fun fence_body :: "string \<Rightarrow> string option" where
  "fence_body [] = None"
| "fence_body (c # cs) =
     (case fence_body cs of
        Some b \<Rightarrow> Some (c # b)
      | None \<Rightarrow> if c = CHR ''}'' \<and> closes_fence cs then Some [c] else None)"

definition fence_at :: "string \<Rightarrow> string option" where
  "fence_at s =
     (case dropWhile is_space (if startsWith s ''json'' then drop 4 s else s) of
        [] \<Rightarrow> None
      | c # cs \<Rightarrow> if c = CHR ''{'' then map_option ((#) c) (fence_body cs) else None)"

fun match_fenced :: "string \<Rightarrow> string option" where
  "match_fenced [] = None"
| "match_fenced (c # cs) =
     (if startsWith (c # cs) ''```'' then
        (case fence_at (drop 2 cs) of
           Some g \<Rightarrow> Some g
         | None \<Rightarrow> match_fenced cs)
      else match_fenced cs)"

text \<open>
  \<open>content.match(/\{[\s\S]*\}/)\<close>: from the first opening brace to the last
  closing brace after it. The expression has no group, so
  \<open>jsonMatch[1] || jsonMatch[0]\<close> is this whole match.
\<close>

definition match_braces :: "string \<Rightarrow> string option" where
  "match_braces s =
     (case dropWhile (\<lambda>c. c \<noteq> CHR ''{'') s of
        [] \<Rightarrow> None
      | c # cs \<Rightarrow>
          if CHR ''}'' \<in> set cs
          then Some (c # rev (dropWhile (\<lambda>x. x \<noteq> CHR ''}'') (rev cs)))
          else None)"

definition jsonMatch :: "string \<Rightarrow> string option" where
  "jsonMatch content =
     (case match_fenced content of
        Some g \<Rightarrow> Some g
      | None \<Rightarrow> match_braces content)"

text \<open>The \<open>try\<close>/\<open>catch\<close> around the first \<open>JSON.parse\<close>: the value bound to
  \<open>result\<close>, or what the second \<open>JSON.parse\<close>, which stands in the \<open>catch\<close> block,
  throws.\<close>

definition parse_result :: "string \<Rightarrow> thrown + json" where
  "parse_result content =
     (case JSON_parse content of
        Inr v \<Rightarrow> Inr v
      | Inl parseError \<Rightarrow>
          (case jsonMatch content of
             Some t \<Rightarrow> JSON_parse t
           | None \<Rightarrow>
               Inr (JObj [(''errorExplanation'', JStr content),
                          (''reasoning'', JStr ''AI analysis completed''),
                          (''fixedCode'', JStr ''See explanation above'')])))"

text \<open>\<open>result.k1 || result.k2 || ... || 'placeholder'\<close>, read from the left.\<close>

fun read_or :: "json \<Rightarrow> string list \<Rightarrow> string \<Rightarrow> thrown + json" where
  "read_or r [] d = Inr (JStr d)"
| "read_or r (k # ks) d =
     (case get_prop r k of
        Inl e \<Rightarrow> Inl e
      | Inr None \<Rightarrow> read_or r ks d
      | Inr (Some v) \<Rightarrow> if truthy v then Inr v else read_or r ks d)"

record debug_result =
  errorExplanation :: json
  reasoning :: json
  fixedCode :: json

definition debugResult :: "json \<Rightarrow> thrown + debug_result" where
  "debugResult r =
     (case read_or r [''errorExplanation'', ''explanation''] ''No error explanation provided'' of
        Inl e \<Rightarrow> Inl e
      | Inr a \<Rightarrow>
          (case read_or r [''reasoning'', ''reason''] ''No reasoning provided'' of
             Inl e \<Rightarrow> Inl e
           | Inr b \<Rightarrow>
               (case read_or r [''fixedCode'', ''code'', ''correctedCode'']
                       ''No fixed code provided'' of
                  Inl e \<Rightarrow> Inl e
                | Inr c \<Rightarrow> Inr \<lparr>errorExplanation = a, reasoning = b, fixedCode = c\<rparr>)))"

definition recover :: "string \<Rightarrow> thrown + debug_result" where
  "recover content =
     (case parse_result content of
        Inl e \<Rightarrow> Inl e
      | Inr r \<Rightarrow> debugResult r)"

section \<open>Requests, responses and the providers\<close>

text \<open>
  The environment variables the handlers read, the decoded form (\<open>file\<close> and
  \<open>code\<close>), and an uploaded file seen through what the handlers observe of its
  buffer: its length in bytes, its text as UTF-8 and its base64 encoding.
\<close>

record env =
  GEMINI_API_KEY :: "string option"
  GOOGLE_API_KEY :: "string option"
  GEMINI_KEY :: "string option"
  NODE_ENV :: "string option"
  AI_PROVIDER :: "string option"
  OLLAMA_URL :: "string option"
  GROQ_API_KEY :: "string option"

record upload =
  file_type :: string
  buffer_length :: nat
  buffer_utf8 :: string
  buffer_base64 :: string

record form =
  form_file :: "upload option"
  form_code :: "string option"

text \<open>A part of the prompt: \<open>InlineData data mimeType\<close> is
  \<open>{inlineData: {data, mimeType}}\<close>, \<open>Text t\<close> is \<open>{text: t}\<close>.\<close>

datatype part =
    InlineData string string
  | Text string

text \<open>
  One call to a provider, and what comes back. \<open>GeminiCall model parts\<close> is
  \<open>getGenerativeModel({model}).generateContent(parts)\<close>: it is rejected with an
  error, or resolves to a response whose \<open>text()\<close> returns the text or throws.
  \<open>OllamaCall url prompt\<close> and \<open>GroqCall key system user\<close> are the two \<open>fetch\<close>
  exchanges of the second handler, each taken as a whole: \<open>Rejected\<close> is the error
  the branch throws (a failed \<open>fetch\<close>, a reply that is not \<open>ok\<close>, an undecodable
  body), \<open>Resolved (Inr content)\<close> the string the branch extracts.
\<close>

datatype call =
    GeminiCall string "part list"
  | OllamaCall string string
  | GroqCall string string string

datatype gen_outcome =
    Rejected js_error
  | Resolved "js_error + string"

type_synonym provider = "call \<Rightarrow> gen_outcome"

text \<open>What \<open>NextResponse.json\<close> is given: \<open>ErrorBody error details\<close> is
  \<open>{error, details}\<close>, where an absent \<open>details\<close> is \<open>undefined\<close> and is left out of
  the serialized body; \<open>ResultBody d\<close> is the object \<open>debugResult\<close> as it is handed
  over, before it is serialized, with the status 200 that \<open>NextResponse.json\<close>
  gives by default.\<close>

datatype body =
    ErrorBody string "string option"
  | ResultBody debug_result

record response =
  resp_status :: int
  resp_body :: body

text \<open>
  The wording of the errors the JavaScript engine creates is the engine's own:
  the message of the \<open>SyntaxError\<close> of \<open>JSON.parse\<close> on a text, the message of the
  \<open>TypeError\<close> of reading a property of \<open>null\<close>, and the stack it records for an
  error with a given message.
\<close>

record runtime =
  syntax_message :: "string \<Rightarrow> string"
  type_message :: "string \<Rightarrow> string"
  error_stack :: "string \<Rightarrow> string"

definition new_Error :: "runtime \<Rightarrow> string \<Rightarrow> js_error" where
  "new_Error rt msg = \<lparr>message = Some msg, status = None, stack = Some (error_stack rt msg)\<rparr>"

fun caught :: "runtime \<Rightarrow> thrown \<Rightarrow> js_error" where
  "caught rt (Error e) = e"
| "caught rt (SyntaxError t) = new_Error rt (syntax_message rt t)"
| "caught rt (TypeError k) = new_Error rt (type_message rt k)"

definition development :: "env \<Rightarrow> bool" where
  "development e = (NODE_ENV e = Some ''development'')"

definition json_response :: "string \<Rightarrow> int \<Rightarrow> response" where
  "json_response err st = \<lparr>resp_status = st, resp_body = ErrorBody err None\<rparr>"

subsection \<open>Building the prompt\<close>

definition image_instruction :: string where
  "image_instruction = ''Please analyze this image for code errors. Identify any errors, explain why they occurred, and provide fixed code if applicable. Respond in JSON format with errorExplanation, reasoning, and fixedCode fields.''"

definition code_instruction :: "string \<Rightarrow> string" where
  "code_instruction t =
     ''Please analyze this code for errors:'' @ [newline, newline] @ t @ [newline, newline] @
     ''Identify any errors, explain why they occurred, and provide fixed code. Respond in JSON format with errorExplanation, reasoning, and fixedCode fields.''"

definition systemPrompt :: string where
  \<open>systemPrompt = join
     [''You are an expert code debugging assistant. When given code or error messages, you should:'',
      ''1. Identify the error clearly'',
      ''2. Explain why the error occurred'',
      ''3. Provide a corrected version of the code'',
      [],
      ''IMPORTANT: You MUST respond ONLY with valid JSON. Do not include any markdown, code blocks, or explanatory text outside the JSON.'',
      [],
      ''Respond with a JSON object containing these exact keys:'',
      ''- errorExplanation: A clear explanation of what the error is'',
      ''- reasoning: A brief explanation of why the error happened'',
      ''- fixedCode: The corrected code (if applicable, otherwise explain the fix)'',
      [],
      ''Example format:'',
      ''{"errorExplanation":"...","reasoning":"...","fixedCode":"..."}'']
     [newline]\<close>

definition systemPrompt_gemini :: string where
  "systemPrompt_gemini = systemPrompt @ [newline, newline] @
     ''If the input is an image, analyze it carefully for code or error messages.''"

text \<open>\<open>fileType = file.type || 'application/octet-stream'\<close>, the size ceiling of its
  class, and the number the message prints, \<open>maxSize / 1024 / 1024\<close>: both
  ceilings are multiples of \<open>1024 * 1024\<close>, so the quotient is a whole number and
  prints as its decimal digits.\<close>

definition fileType :: "upload \<Rightarrow> string" where
  "fileType f = or_string (Some (file_type f)) ''application/octet-stream''"

definition maxSize :: "upload \<Rightarrow> nat" where
  "maxSize f = (if startsWith (fileType f) ''image/'' then 10 * 1024 * 1024 else 1024 * 1024)"

fun show_nat :: "nat \<Rightarrow> string" where
  "show_nat n =
     (if n < 10 then [char_of (48 + n)]
      else show_nat (n div 10) @ [char_of (48 + n mod 10)])"

definition too_large :: "upload \<Rightarrow> response" where
  "too_large f =
     json_response (''File is too large. Maximum size: '' @
                    show_nat (maxSize f div 1024 div 1024) @ ''MB'') 400"

section \<open>The Gemini handler with model fallback\<close>

text \<open>The route handler \<open>POST\<close> of \<open>src/unnamed/part_002\<close>, which talks to Gemini
  only and tries three model names in turn.\<close>

text \<open>\<open>getGeminiClient\<close>: the client, here the key it is built with, or the error
  thrown when no key is configured. An empty variable is falsy like an unset one.\<close>

definition errorMsg :: string where
  "errorMsg = join
     [''Gemini API key is not configured. '',
      ''Please create a .env.local file in the root directory with:'',
      ''GEMINI_API_KEY=your_api_key_here'',
      [],
      ''Then restart your dev server (npm run dev).'',
      [],
      ''Get your API key from: https://makersuite.google.com/app/apikey'']
     [newline]"

definition getGeminiClient :: "runtime \<Rightarrow> env \<Rightarrow> js_error + string" where
  "getGeminiClient rt ev =
     (if \<not> truthy_string (GEMINI_API_KEY ev) then
        (if truthy_string (GOOGLE_API_KEY ev) then Inr (or_string (GOOGLE_API_KEY ev) [])
         else if truthy_string (GEMINI_KEY ev) then Inr (or_string (GEMINI_KEY ev) [])
         else Inl (new_Error rt errorMsg))
      else Inr (or_string (GEMINI_API_KEY ev) []))"

definition modelNamesToTry :: "string list" where
  "modelNamesToTry = [''gemini-1.5-flash'', ''gemini-1.5-pro'', ''gemini-pro'']"

text \<open>
  The prompt: \<open>userPrompt\<close> starts as the system prompt and two line feeds, the file
  adds to it (\<open>+=\<close>), then the code adds to it, and the text part goes last. A file
  above its ceiling ends the request.
\<close>

definition file_step_gemini :: "upload option \<Rightarrow> string \<Rightarrow> response + part list \<times> string" where
  "file_step_gemini file userPrompt =
     (case file of
        None \<Rightarrow> Inr ([], userPrompt)
      | Some f \<Rightarrow>
          if buffer_length f > maxSize f then Inl (too_large f)
          else if startsWith (fileType f) ''image/''
          then Inr ([InlineData (buffer_base64 f) (fileType f)], userPrompt @ image_instruction)
          else Inr ([], userPrompt @ code_instruction (buffer_utf8 f)))"

definition code_step_gemini :: "string option \<Rightarrow> string \<Rightarrow> string" where
  "code_step_gemini code userPrompt =
     (case code of
        None \<Rightarrow> userPrompt
      | Some c \<Rightarrow> if c \<noteq> [] \<and> trim c \<noteq> [] then userPrompt @ code_instruction c else userPrompt)"

definition build_parts_gemini :: "form \<Rightarrow> response + part list" where
  "build_parts_gemini fm =
     (case file_step_gemini (form_file fm) (systemPrompt_gemini @ [newline, newline]) of
        Inl r \<Rightarrow> Inl r
      | Inr (parts, userPrompt) \<Rightarrow>
          Inr (parts @ [Text (code_step_gemini (form_code fm) userPrompt)]))"

text \<open>The \<open>catch\<close> block of the loop: which errors move on to the next model, and
  the response that ends the request otherwise.\<close>

definition not_found :: "string \<Rightarrow> bool" where
  "not_found errorMessage =
     (includes_str errorMessage ''not found'' \<or> includes_str errorMessage ''404'')"

definition helpfulMessage :: "string \<Rightarrow> string" where
  \<open>helpfulMessage errorMessage =
     (if not_found errorMessage then
        join
          [''None of the available Gemini models worked with your API key.'',
           ''          '',
           ''Tried models: '' @ join modelNamesToTry '', '',
           [],
           ''This usually means:'',
           ''1. Your API key doesn't have access to these models'',
           ''2. The Generative Language API is not enabled in your Google Cloud project'',
           ''3. Your API key may be restricted'',
           [],
           ''Please:'',
           ''- Check your API key at: https://makersuite.google.com/app/apikey'',
           ''- Enable "Generative Language API" in Google Cloud Console'',
           ''- Verify your API key has the correct permissions'',
           [],
           ''Original error: '' @ errorMessage]
          [newline]
      else errorMessage)\<close>

definition gemini_failure :: "env \<Rightarrow> js_error \<Rightarrow> response" where
  "gemini_failure ev geminiError =
     (let errorMessage = or_string (message geminiError) ''Gemini API error'';
          errorStatus = (case status geminiError of
                           None \<Rightarrow> 500
                         | Some n \<Rightarrow> if n = 0 then 500 else n)
      in \<lparr>resp_status = (if 400 \<le> errorStatus \<and> errorStatus < 600 then errorStatus else 500),
          resp_body = ErrorBody (''Gemini API error: '' @ helpfulMessage errorMessage)
                        (if development ev then stack geminiError else None)\<rparr>)"

datatype loop_result =
    Returned response
  | Got "js_error + string"
  | Exhausted "js_error option"

text \<open>
  The \<open>for\<close> loop over \<open>attempt\<close>, with \<open>currentModelIndex\<close> and \<open>lastError\<close> as the
  source keeps them, and the calls made so far. It ends with the response
  returned from inside the loop, with the response object of the call that
  succeeded, or by running out of attempts.
\<close>

function tryModels ::
  "provider \<Rightarrow> env \<Rightarrow> part list \<Rightarrow> nat \<Rightarrow> nat \<Rightarrow> js_error option \<Rightarrow> call list
     \<Rightarrow> loop_result \<times> call list" where
  "tryModels p ev parts attempt currentModelIndex lastError calls =
     (if attempt < length modelNamesToTry then
        (case p (GeminiCall (modelNamesToTry ! currentModelIndex) parts) of
           Resolved r \<Rightarrow>
             (Got r, calls @ [GeminiCall (modelNamesToTry ! currentModelIndex) parts])
         | Rejected geminiError \<Rightarrow>
             if not_found (or_string (message geminiError) ''Gemini API error'')
                \<and> attempt < length modelNamesToTry - 1
             then tryModels p ev parts (attempt + 1) (currentModelIndex + 1) (Some geminiError)
                    (calls @ [GeminiCall (modelNamesToTry ! currentModelIndex) parts])
             else (Returned (gemini_failure ev geminiError),
                   calls @ [GeminiCall (modelNamesToTry ! currentModelIndex) parts]))
      else (Exhausted lastError, calls))"
  by pat_completeness auto
termination
  by (relation "measure (\<lambda>(p, ev, parts, attempt, rest). length modelNamesToTry - attempt)") auto

declare tryModels.simps [simp del]

definition no_response :: "js_error option \<Rightarrow> response" where
  "no_response lastError =
     json_response
       (join
          [''Failed to get response from any Gemini model.'',
           ''          '',
           ''Tried all models: '' @ join modelNamesToTry '', '',
           ''Last error: '' @
             or_string (case lastError of None \<Rightarrow> None | Some e \<Rightarrow> message e) ''Unknown error'',
           [],
           ''Please check your API key permissions and ensure the Generative Language API is enabled.'']
          [newline])
       500"

text \<open>From the response object to the result: \<open>response.text()\<close>, the check for an
  empty text, and the recovery; everything thrown here reaches the outer \<open>catch\<close>.\<close>

definition read_content :: "runtime \<Rightarrow> js_error + string \<Rightarrow> thrown + debug_result" where
  "read_content rt r =
     (case r of
        Inl e \<Rightarrow> Inl (Error e)
      | Inr content \<Rightarrow>
          if content = [] then Inl (Error (new_Error rt ''No response from AI''))
          else recover content)"

definition outer_catch :: "runtime \<Rightarrow> env \<Rightarrow> thrown \<Rightarrow> response" where
  "outer_catch rt ev t =
     \<lparr>resp_status = 500,
      resp_body = ErrorBody (or_string (message (caught rt t)) ''An unexpected error occurred'')
                    (if development ev then stack (caught rt t) else None)\<rparr>"

definition ok_response :: "debug_result \<Rightarrow> response" where
  "ok_response d = \<lparr>resp_status = 200, resp_body = ResultBody d\<rparr>"

text \<open>The handler: the response, and the calls made to the provider, in order.
  \<open>formData\<close> is the outcome of \<open>request.formData()\<close>.\<close>

definition POST_gemini ::
  "runtime \<Rightarrow> env \<Rightarrow> js_error + form \<Rightarrow> provider \<Rightarrow> response \<times> call list" where
  "POST_gemini rt ev formData p =
     (case getGeminiClient rt ev of
        Inl initError \<Rightarrow>
          (json_response (or_string (message initError) ''Failed to initialize Gemini client'') 500,
           [])
      | Inr genAI \<Rightarrow>
          (case formData of
             Inl formError \<Rightarrow>
               (json_response (''Failed to parse form data: '' @
                               or_string (message formError) ''Unknown error'') 400, [])
           | Inr fm \<Rightarrow>
               if form_file fm = None \<and> \<not> truthy_string (form_code fm)
               then (json_response ''Please provide either code or a file'' 400, [])
               else
                 (case build_parts_gemini fm of
                    Inl r \<Rightarrow> (r, [])
                  | Inr parts \<Rightarrow>
                      (case tryModels p ev parts 0 0 None [] of
                         (Returned r, calls) \<Rightarrow> (r, calls)
                       | (Exhausted lastError, calls) \<Rightarrow> (no_response lastError, calls)
                       | (Got r, calls) \<Rightarrow>
                           (case read_content rt r of
                              Inl t \<Rightarrow> (outer_catch rt ev t, calls)
                            | Inr d \<Rightarrow> (ok_response d, calls))))))"

section \<open>The handler with several providers\<close>

text \<open>The route handler \<open>POST\<close> in the second half of \<open>src/app/layout.tsx\<close> (from
  line 84 on), which chooses between Gemini, Ollama and Groq from the
  environment.\<close>

text \<open>\<open>getAIProvider\<close> and this handler's \<open>getGeminiClient\<close>.\<close>

definition config_provider :: "env \<Rightarrow> string" where
  "config_provider ev = or_string (AI_PROVIDER ev) ''gemini''"

definition config_ollamaUrl :: "env \<Rightarrow> string" where
  "config_ollamaUrl ev = or_string (OLLAMA_URL ev) ''http://localhost:11434''"

definition getGeminiClient_multi :: "runtime \<Rightarrow> env \<Rightarrow> js_error + string" where
  "getGeminiClient_multi rt ev =
     (if \<not> truthy_string (GEMINI_API_KEY ev)
      then Inl (new_Error rt ''GEMINI_API_KEY is not configured in .env.local'')
      else Inr (or_string (GEMINI_API_KEY ev) []))"

text \<open>
  The prompt: \<open>userPrompt\<close> starts empty, the file assigns it (\<open>=\<close>), then the code
  assigns it, and a text part is pushed only for a prompt that is not empty.
\<close>

definition file_step_multi :: "upload option \<Rightarrow> response + part list \<times> string" where
  "file_step_multi file =
     (case file of
        None \<Rightarrow> Inr ([], [])
      | Some f \<Rightarrow>
          if buffer_length f > maxSize f then Inl (too_large f)
          else if startsWith (fileType f) ''image/''
          then Inr ([InlineData (buffer_base64 f) (fileType f)], image_instruction)
          else Inr ([], code_instruction (buffer_utf8 f)))"

definition code_step_multi :: "string option \<Rightarrow> string \<Rightarrow> string" where
  "code_step_multi code userPrompt =
     (case code of
        None \<Rightarrow> userPrompt
      | Some c \<Rightarrow> if c \<noteq> [] \<and> trim c \<noteq> [] then code_instruction c else userPrompt)"

definition build_parts_multi :: "form \<Rightarrow> response + part list \<times> string" where
  "build_parts_multi fm =
     (case file_step_multi (form_file fm) of
        Inl r \<Rightarrow> Inl r
      | Inr (parts, filePrompt) \<Rightarrow>
          (let userPrompt = code_step_multi (form_code fm) filePrompt
           in Inr (if userPrompt \<noteq> []
                   then parts @ [Text (systemPrompt @ [newline, newline] @ userPrompt)]
                   else parts,
                   userPrompt)))"

text \<open>One call, and the content it yields or the error it throws.\<close>

definition ask :: "provider \<Rightarrow> call \<Rightarrow> (thrown + string) \<times> call list" where
  "ask p c =
     (case p c of
        Rejected e \<Rightarrow> (Inl (Error e), [c])
      | Resolved (Inl e) \<Rightarrow> (Inl (Error e), [c])
      | Resolved (Inr content) \<Rightarrow> (Inr content, [c]))"

definition ask_gemini ::
  "runtime \<Rightarrow> env \<Rightarrow> provider \<Rightarrow> part list \<Rightarrow> (thrown + string) \<times> call list" where
  "ask_gemini rt ev p parts =
     (case getGeminiClient_multi rt ev of
        Inl e \<Rightarrow> (Inl (Error e), [])
      | Inr genAI \<Rightarrow> ask p (GeminiCall ''gemini-2.5-flash'' parts))"

definition route ::
  "runtime \<Rightarrow> env \<Rightarrow> provider \<Rightarrow> part list \<Rightarrow> string \<Rightarrow> (thrown + string) \<times> call list" where
  "route rt ev p parts userPrompt =
     (if config_provider ev = ''gemini'' \<and> truthy_string (GEMINI_API_KEY ev)
      then ask_gemini rt ev p parts
      else if config_provider ev = ''ollama''
      then ask p (OllamaCall (config_ollamaUrl ev) (systemPrompt @ [newline, newline] @ userPrompt))
      else if config_provider ev = ''groq'' \<and> truthy_string (GROQ_API_KEY ev)
      then ask p (GroqCall (or_string (GROQ_API_KEY ev) []) systemPrompt userPrompt)
      else if \<not> truthy_string (GEMINI_API_KEY ev)
      then (Inl (Error (new_Error rt
              ''No AI provider configured. Please set GEMINI_API_KEY or choose another provider.'')),
            [])
      else ask_gemini rt ev p parts)"

definition ai_catch :: "runtime \<Rightarrow> thrown \<Rightarrow> response" where
  "ai_catch rt aiError =
     json_response
       (join
          [''AI Provider Error: '' @ or_string (message (caught rt aiError)) ''Unknown error'',
           [],
           ''Setup Instructions:'',
           ''1. For Gemini 2.5 Flash (Recommended - Free tier available):'',
           ''   - Get API key from: https://makersuite.google.com/app/apikey'',
           ''   - Add to .env.local: GEMINI_API_KEY=your_key'',
           ''   - Set: AI_PROVIDER=gemini (or leave default)'',
           [],
           ''2. For Ollama (Free & Local):'',
           ''   - Install from: https://ollama.ai'',
           ''   - Run: ollama pull llama3.2:3b'',
           ''   - Set: AI_PROVIDER=ollama'',
           [],
           ''3. For Groq (Free API):'',
           ''   - Get API key from: https://console.groq.com'',
           ''   - Add to .env.local: GROQ_API_KEY=your_key'',
           ''   - Set: AI_PROVIDER=groq'']
          [newline])
       500"

definition POST_multi ::
  "runtime \<Rightarrow> env \<Rightarrow> js_error + form \<Rightarrow> provider \<Rightarrow> response \<times> call list" where
  "POST_multi rt ev formData p =
     (case formData of
        Inl formError \<Rightarrow>
          (json_response (''Failed to parse form data: '' @
                          or_string (message formError) ''Unknown error'') 400, [])
      | Inr fm \<Rightarrow>
          if form_file fm = None \<and> \<not> truthy_string (form_code fm)
          then (json_response ''Please provide either code or a file'' 400, [])
          else
            (case build_parts_multi fm of
               Inl r \<Rightarrow> (r, [])
             | Inr (parts, userPrompt) \<Rightarrow>
                 (case route rt ev p parts userPrompt of
                    (Inl t, calls) \<Rightarrow> (ai_catch rt t, calls)
                  | (Inr content, calls) \<Rightarrow>
                      (case read_content rt (Inr content) of
                         Inl t \<Rightarrow> (ai_catch rt t, calls)
                       | Inr d \<Rightarrow> (ok_response d, calls)))))"

section \<open>Vocabulary of the properties\<close>

text \<open>
  \<open>first_present\<close> reads the field resolution the way the specification words
  it: the value of the first key that the object has, else the placeholder.
  \<open>members\<close> is the object as a map from keys to values, and \<open>truthy_members\<close>
  the same map without the members whose value is falsy.
\<close>

fun first_present :: "(string \<rightharpoonup> json) \<Rightarrow> string list \<Rightarrow> string \<Rightarrow> json" where
  "first_present m [] d = JStr d"
| "first_present m (k # ks) d = (case m k of Some v \<Rightarrow> v | None \<Rightarrow> first_present m ks d)"

definition members :: "(string \<times> json) list \<Rightarrow> (string \<rightharpoonup> json)" where
  "members kvs = map_of (rev kvs)"

definition truthy_members :: "(string \<times> json) list \<Rightarrow> (string \<rightharpoonup> json)" where
  "truthy_members kvs k =
     (case members kvs k of
        None \<Rightarrow> None
      | Some v \<Rightarrow> if truthy v then Some v else None)"

fun is_string :: "json \<Rightarrow> bool" where
  "is_string (JStr s) = True"
| "is_string v = False"

fun is_object :: "json \<Rightarrow> bool" where
  "is_object (JObj kvs) = True"
| "is_object v = False"

text \<open>\<open>error_includes r s\<close>: the response \<open>r\<close> is an error response whose \<open>error\<close> text
  contains \<open>s\<close>. \<open>artifact_instruction f\<close> is the instruction the handlers derive
  from the file \<open>f\<close>, and \<open>inline_parts f\<close> the inline data they push for an image.\<close>

definition error_includes :: "response \<Rightarrow> string \<Rightarrow> bool" where
  "error_includes r s =
     (case resp_body r of
        ErrorBody msg details \<Rightarrow> includes_str msg s
      | ResultBody d \<Rightarrow> False)"



definition placeholders :: debug_result where
  "placeholders =
     \<lparr>errorExplanation = JStr ''No error explanation provided'',
      reasoning = JStr ''No reasoning provided'',
      fixedCode = JStr ''No fixed code provided''\<rparr>"

subsection \<open>Concrete inputs\<close>

text \<open>An engine, a production environment with a Gemini key, one with no key at
  all and one that selects Ollama, uploads, two errors a Gemini call is
  rejected with, and providers built from them.\<close>

definition example_runtime :: runtime where
  "example_runtime =
     \<lparr>syntax_message = (\<lambda>t. ''Unexpected token in JSON''),
      type_message = (\<lambda>k. ''Cannot read properties of null''),
      error_stack = (\<lambda>m. ''Error: '' @ m)\<rparr>"

definition example_env :: env where
  "example_env =
     \<lparr>GEMINI_API_KEY = Some ''AIzaSyExampleExampleExampleExample000'',
      GOOGLE_API_KEY = None, GEMINI_KEY = None, NODE_ENV = Some ''production'',
      AI_PROVIDER = None, OLLAMA_URL = None, GROQ_API_KEY = None\<rparr>"

definition example_upload :: "string \<Rightarrow> nat \<Rightarrow> upload" where
  "example_upload t n =
     \<lparr>file_type = t, buffer_length = n, buffer_utf8 = ''print(x)'',
      buffer_base64 = ''cHJpbnQoeCk=''\<rparr>"

definition unknown_model :: js_error where
  "unknown_model =
     \<lparr>message = Some ''[404 Not Found] models/gemini-1.5-flash is not found for API version v1beta'',
      status = Some 404, stack = None\<rparr>"

definition quota_exceeded :: js_error where
  "quota_exceeded =
     \<lparr>message = Some ''[429 Too Many Requests] Resource has been exhausted'',
      status = Some 429, stack = None\<rparr>"

text \<open>\<open>example_provider good err text\<close> answers the Gemini model \<open>good\<close> and the other
  two services with \<open>text\<close>, and rejects every other Gemini model with \<open>err\<close>.\<close>

definition example_provider :: "string \<Rightarrow> js_error \<Rightarrow> string \<Rightarrow> provider" where
  "example_provider good err text c =
     (case c of
        GeminiCall m ps \<Rightarrow> if m = good then Resolved (Inr text) else Rejected err
      | OllamaCall u q \<Rightarrow> Resolved (Inr text)
      | GroqCall k s u \<Rightarrow> Resolved (Inr text))"

definition no_key_env :: env where
  "no_key_env =
     \<lparr>GEMINI_API_KEY = None, GOOGLE_API_KEY = None, GEMINI_KEY = None,
      NODE_ENV = Some ''production'', AI_PROVIDER = None, OLLAMA_URL = None,
      GROQ_API_KEY = None\<rparr>"


definition code_only :: "string \<Rightarrow> form" where
  "code_only c = \<lparr>form_file = None, form_code = Some c\<rparr>"

definition file_only :: "upload \<Rightarrow> form" where
  "file_only f = \<lparr>form_file = Some f, form_code = None\<rparr>"


text \<open>Texts a provider may answer with.\<close>

definition canonical_reply :: string where
  \<open>canonical_reply = ''{"errorExplanation":"x is undefined","reasoning":"x was never assigned","fixedCode":"x = 1"}''\<close>

definition alias_reply :: string where
  \<open>alias_reply = ''{"explanation":"X","reason":"Y","code":"Z"}''\<close>

definition empty_field_reply :: string where
  \<open>empty_field_reply = ''{"errorExplanation":"","reasoning":"B","fixedCode":"C"}''\<close>

definition shadowed_reply :: string where
  \<open>shadowed_reply = ''{"errorExplanation":"","explanation":"X"}''\<close>

definition number_reply :: string where
  \<open>number_reply = ''{"errorExplanation":5,"reasoning":"B","fixedCode":"C"}''\<close>

definition braces_reply :: string where
  "braces_reply = ''Wrap the name in braces: {x}''"

section \<open>Properties\<close>

subsection \<open>Auxiliary facts: the fallback loop and the handlers\<close>

declare show_nat.simps [simp del]

lemma names_nth [simp]:
  "modelNamesToTry ! 0 = ''gemini-1.5-flash''"
  "modelNamesToTry ! Suc 0 = ''gemini-1.5-pro''"
  "modelNamesToTry ! Suc (Suc 0) = ''gemini-pro''"
  "length modelNamesToTry = 3"
  by (simp_all add: modelNamesToTry_def)

lemma unknown_model_not_found:
  "not_found (or_string (message unknown_model) ''Gemini API error'')"
  by (simp add: unknown_model_def or_string_def not_found_def)

lemma quota_exceeded_other:
  "\<not> not_found (or_string (message quota_exceeded) ''Gemini API error'')"
  by (simp add: quota_exceeded_def or_string_def not_found_def)

lemma fileType_image: "startsWith (fileType f) ''image/'' = startsWith (file_type f) ''image/''"
  by (cases "file_type f") (simp_all add: fileType_def or_string_def)

lemma show_nat_limits: "show_nat 10 = ''10''" "show_nat (Suc 0) = ''1''"
  by code_simp+

lemma too_large_text:
  "too_large f = json_response (''File is too large. Maximum size: '' @
      (if startsWith (file_type f) ''image/'' then ''10MB'' else ''1MB'')) 400"
  by (simp add: too_large_def maxSize_def fileType_image show_nat_limits)

lemma maxSize_cases:
  "maxSize f = (if startsWith (file_type f) ''image/'' then 10485760 else 1048576)"
  by (simp add: maxSize_def fileType_image)

lemma build_gemini_large:
  "form_file fm = Some f \<Longrightarrow> buffer_length f > maxSize f
     \<Longrightarrow> build_parts_gemini fm = Inl (too_large f)"
  by (simp add: build_parts_gemini_def file_step_gemini_def)

lemma build_multi_large:
  "form_file fm = Some f \<Longrightarrow> buffer_length f > maxSize f
     \<Longrightarrow> build_parts_multi fm = Inl (too_large f)"
  by (simp add: build_parts_multi_def file_step_multi_def)

lemma build_gemini_fits:
  "form_file fm = Some f \<Longrightarrow> buffer_length f \<le> maxSize f
     \<Longrightarrow> \<exists>ps. build_parts_gemini fm = Inr ps"
  by (simp add: build_parts_gemini_def file_step_gemini_def)

lemma build_multi_fits:
  "form_file fm = Some f \<Longrightarrow> buffer_length f \<le> maxSize f
     \<Longrightarrow> \<exists>ps. build_parts_multi fm = Inr ps"
  by (simp add: build_parts_multi_def file_step_multi_def Let_def)


lemma trim_print [simp]: "trim ''print(x)'' = ''print(x)''" "trim ''print(y)'' = ''print(y)''"
  by (simp_all add: trim_def is_space_def)

lemma build_code_only:
  "trim c \<noteq> [] \<Longrightarrow> build_parts_gemini (code_only c) =
     Inr [Text (systemPrompt_gemini @ [newline, newline] @ code_instruction c)]"
  by (auto simp add: build_parts_gemini_def file_step_gemini_def code_step_gemini_def
        code_only_def trim_def)

lemma build_blank_gemini:
  "build_parts_gemini (code_only '' '') = Inr [Text (systemPrompt_gemini @ [newline, newline])]"
  by (simp add: build_parts_gemini_def file_step_gemini_def code_step_gemini_def code_only_def
        trim_def is_space_def)

lemma build_blank_multi:
  "build_parts_multi (code_only '' '') = Inr ([], [])"
  by (simp add: build_parts_multi_def file_step_multi_def code_step_multi_def code_only_def
        trim_def is_space_def)



lemma getGeminiClient_example:
  "getGeminiClient rt example_env = Inr ''AIzaSyExampleExampleExampleExample000''"
  by (simp add: getGeminiClient_def example_env_def truthy_string_def or_string_def)

lemma example_env_config:
  "config_provider example_env = ''gemini''" "truthy_string (GEMINI_API_KEY example_env)"
  "\<not> development example_env"
  by (simp_all add: config_provider_def example_env_def or_string_def truthy_string_def
        development_def)

lemma example_provider_gemini:
  "example_provider m err text (GeminiCall m parts) = Resolved (Inr text)"
  by (simp add: example_provider_def)

lemma has_code:
  "\<not> (form_file (code_only (c # cs)) = None
      \<and> \<not> truthy_string (form_code (code_only (c # cs))))"
  by (simp add: code_only_def truthy_string_def)

lemma POST_gemini_first:
  "getGeminiClient rt ev = Inr k
   \<Longrightarrow> \<not> (form_file fm = None \<and> \<not> truthy_string (form_code fm))
   \<Longrightarrow> build_parts_gemini fm = Inr parts
   \<Longrightarrow> p (GeminiCall ''gemini-1.5-flash'' parts) = Resolved (Inr content)
   \<Longrightarrow> POST_gemini rt ev (Inr fm) p =
        ((case read_content rt (Inr content) of
            Inl t \<Rightarrow> outer_catch rt ev t
          | Inr d \<Rightarrow> ok_response d),
         [GeminiCall ''gemini-1.5-flash'' parts])"
  by (auto simp add: POST_gemini_def tryModels.simps split: sum.splits)

lemma POST_multi_default:
  "config_provider ev = ''gemini'' \<Longrightarrow> truthy_string (GEMINI_API_KEY ev)
   \<Longrightarrow> \<not> (form_file fm = None \<and> \<not> truthy_string (form_code fm))
   \<Longrightarrow> build_parts_multi fm = Inr (parts, userPrompt)
   \<Longrightarrow> p (GeminiCall ''gemini-2.5-flash'' parts) = Resolved (Inr content)
   \<Longrightarrow> POST_multi rt ev (Inr fm) p =
        ((case read_content rt (Inr content) of
            Inl t \<Rightarrow> ai_catch rt t
          | Inr d \<Rightarrow> ok_response d),
         [GeminiCall ''gemini-2.5-flash'' parts])"
  by (auto simp add: POST_multi_def route_def ask_gemini_def ask_def getGeminiClient_multi_def
        split: sum.splits)

lemma POST_gemini_print:
  "POST_gemini example_runtime example_env (Inr (code_only ''print(x)''))
       (example_provider ''gemini-1.5-flash'' err text) =
     ((case read_content example_runtime (Inr text) of
         Inl t \<Rightarrow> outer_catch example_runtime example_env t
       | Inr d \<Rightarrow> ok_response d),
      [GeminiCall ''gemini-1.5-flash''
         [Text (systemPrompt_gemini @ [newline, newline] @ code_instruction ''print(x)'')]])"
proof (rule POST_gemini_first)
  show "getGeminiClient example_runtime example_env = Inr ''AIzaSyExampleExampleExampleExample000''"
    by (rule getGeminiClient_example)
  show "\<not> (form_file (code_only ''print(x)'') = None
            \<and> \<not> truthy_string (form_code (code_only ''print(x)'')))"
    by (rule has_code)
  show "build_parts_gemini (code_only ''print(x)'') =
      Inr [Text (systemPrompt_gemini @ [newline, newline] @ code_instruction ''print(x)'')]"
    by (simp add: build_code_only)
  show "example_provider ''gemini-1.5-flash'' err text
          (GeminiCall ''gemini-1.5-flash''
            [Text (systemPrompt_gemini @ [newline, newline] @ code_instruction ''print(x)'')])
        = Resolved (Inr text)"
    by (rule example_provider_gemini)
qed

lemma too_large_record:
  "too_large f = \<lparr>resp_status = 400, resp_body = ErrorBody (''File is too large. Maximum size: '' @
      (if startsWith (file_type f) ''image/'' then ''10MB'' else ''1MB'')) None\<rparr>"
  by (simp add: too_large_text json_response_def)

lemma POST_multi_large:
  "form_file fm = Some f \<Longrightarrow> buffer_length f > maxSize f
     \<Longrightarrow> POST_multi rt ev (Inr fm) p = (too_large f, [])"
  by (simp add: POST_multi_def build_multi_large)

lemma POST_gemini_large:
  "form_file fm = Some f \<Longrightarrow> buffer_length f > maxSize f \<Longrightarrow> getGeminiClient rt ev = Inr k
     \<Longrightarrow> POST_gemini rt ev (Inr fm) p = (too_large f, [])"
  by (simp add: POST_gemini_def build_gemini_large)

lemma POST_gemini_no_client:
  "getGeminiClient rt ev = Inl e \<Longrightarrow>
     POST_gemini rt ev fd p =
       (\<lparr>resp_status = 500,
         resp_body = ErrorBody (or_string (message e) ''Failed to initialize Gemini client'') None\<rparr>,
        [])"
  by (simp add: POST_gemini_def json_response_def)

lemma getGeminiClient_no_key:
  "getGeminiClient rt no_key_env = Inl (new_Error rt errorMsg)"
  by (simp add: getGeminiClient_def no_key_env_def truthy_string_def)

lemma errorMsg_nonempty: "errorMsg \<noteq> []"
  by (simp add: errorMsg_def)

lemma errorMsg_no_limit: "\<not> includes_str errorMsg ''10MB''" "\<not> includes_str errorMsg ''1MB''"
  by code_simp+















text \<open>A request with no file and with no code or the empty string as code is
  turned away by the first check of both handlers, before any call.\<close>

lemma empty_input_rejected:
  "form_file fm = None \<Longrightarrow> form_code fm = None \<or> form_code fm = Some [] \<Longrightarrow>
     POST_multi rt ev (Inr fm) p = (json_response ''Please provide either code or a file'' 400, [])
     \<and> snd (POST_gemini rt ev (Inr fm) p) = []
     \<and> (getGeminiClient rt ev = Inr k \<longrightarrow>
          POST_gemini rt ev (Inr fm) p =
            (json_response ''Please provide either code or a file'' 400, []))"
  by (auto simp add: POST_multi_def POST_gemini_def truthy_string_def split: sum.splits)

subsection \<open>Auxiliary facts: recovery\<close>

lemma read_or_object:
  "read_or (JObj kvs) ks d = Inr (first_present (truthy_members kvs) ks d)"
  by (induction ks) (simp_all add: truthy_members_def members_def split: option.splits)

lemma read_or_scalar:
  "\<not> is_object v \<Longrightarrow> v \<noteq> JNull \<Longrightarrow> read_or v ks d = Inr (JStr d)"
  by (induction ks) (cases v; simp)+

lemma debugResult_object:
  "debugResult (JObj kvs) = Inr
     \<lparr>errorExplanation = first_present (truthy_members kvs)
         [''errorExplanation'', ''explanation''] ''No error explanation provided'',
      reasoning = first_present (truthy_members kvs)
         [''reasoning'', ''reason''] ''No reasoning provided'',
      fixedCode = first_present (truthy_members kvs)
         [''fixedCode'', ''code'', ''correctedCode''] ''No fixed code provided''\<rparr>"
  by (simp add: debugResult_def read_or_object del: read_or.simps)

lemma debugResult_scalar:
  "\<not> is_object v \<Longrightarrow> v \<noteq> JNull \<Longrightarrow> debugResult v = Inr placeholders"
  by (simp add: debugResult_def read_or_scalar placeholders_def del: read_or.simps)

lemma debugResult_null: "debugResult JNull = Inl (TypeError ''errorExplanation'')"
  by (simp add: debugResult_def)

lemma parse_result_parsed: "JSON_parse content = Inr v \<Longrightarrow> parse_result content = Inr v"
  by (simp add: parse_result_def)

lemma truthy_members_all:
  "\<forall>k v. members kvs k = Some v \<longrightarrow> truthy v \<Longrightarrow> truthy_members kvs = members kvs"
  by (rule ext) (auto simp add: truthy_members_def split: option.splits)

lemma parse_examples:
  "JSON_parse ''42'' = Inr (JNum 42)"
  \<open>JSON_parse ''"abc"'' = Inr (JStr ''abc'')\<close>
  "JSON_parse ''null'' = Inr JNull"
  "JSON_parse ''true'' = Inr (JBool True)"
  "JSON_parse ''false'' = Inr (JBool False)"
  "JSON_parse ''[1]'' = Inr (JArr [JNum 1])"
  by code_simp+

lemma parse_canonical_reply:
  "JSON_parse canonical_reply = Inr (JObj
     [(''errorExplanation'', JStr ''x is undefined''),
      (''reasoning'', JStr ''x was never assigned''),
      (''fixedCode'', JStr ''x = 1'')])"
  by code_simp

lemma parse_empty_field_reply:
  "JSON_parse empty_field_reply = Inr (JObj
     [(''errorExplanation'', JStr ''''), (''reasoning'', JStr ''B''), (''fixedCode'', JStr ''C'')])"
  by code_simp

lemma parse_alias_reply:
  "JSON_parse alias_reply =
     Inr (JObj [(''explanation'', JStr ''X''), (''reason'', JStr ''Y''), (''code'', JStr ''Z'')])"
  by code_simp

lemma parse_shadowed_reply:
  "JSON_parse shadowed_reply =
     Inr (JObj [(''errorExplanation'', JStr ''''), (''explanation'', JStr ''X'')])"
  by code_simp

lemma parse_number_reply:
  "JSON_parse number_reply =
     Inr (JObj [(''errorExplanation'', JNum 5), (''reasoning'', JStr ''B''),
                (''fixedCode'', JStr ''C'')])"
  by code_simp

lemma recover_canonical_reply:
  "recover canonical_reply = Inr
     \<lparr>errorExplanation = JStr ''x is undefined'',
      reasoning = JStr ''x was never assigned'',
      fixedCode = JStr ''x = 1''\<rparr>"
  by (simp add: recover_def parse_result_parsed [OF parse_canonical_reply] debugResult_object
        truthy_members_def members_def)

lemma recover_number_reply:
  "recover number_reply =
     Inr \<lparr>errorExplanation = JNum 5, reasoning = JStr ''B'', fixedCode = JStr ''C''\<rparr>"
  by (simp add: recover_def parse_result_parsed [OF parse_number_reply] debugResult_object
        truthy_members_def members_def)

lemma recover_braces_reply: "recover braces_reply = Inl (SyntaxError ''{x}'')"
  by code_simp

lemma recover_null: "recover ''null'' = Inl (TypeError ''errorExplanation'')"
  by code_simp

lemma replies_nonempty:
  "canonical_reply \<noteq> []" "number_reply \<noteq> []" "braces_reply \<noteq> []"
  by (simp_all add: canonical_reply_def number_reply_def braces_reply_def)


subsection \<open>The fallback loop\<close>

text \<open>
  C1. When the first two candidates are rejected with an error whose message
  contains \<open>not found\<close> or \<open>404\<close> and the third call resolves, the loop has made
  exactly three calls, \<open>gemini-1.5-flash\<close>, \<open>gemini-1.5-pro\<close>, \<open>gemini-pro\<close> in that
  order, and hands on the response of the third; the handler then answers from
  the raw text of that third response and has made those three calls. A success
  ends the loop: when the first candidate resolves, it is the only call; when
  the second does, no third call is made.
\<close>

theorem fallback_order:
  "(p (GeminiCall ''gemini-1.5-flash'' parts) = Rejected e1
      \<and> not_found (or_string (message e1) ''Gemini API error'')
      \<and> p (GeminiCall ''gemini-1.5-pro'' parts) = Rejected e2
      \<and> not_found (or_string (message e2) ''Gemini API error'')
      \<and> p (GeminiCall ''gemini-pro'' parts) = Resolved (Inr text)
    \<longrightarrow> tryModels p ev parts 0 0 None [] =
          (Got (Inr text),
           [GeminiCall ''gemini-1.5-flash'' parts, GeminiCall ''gemini-1.5-pro'' parts,
            GeminiCall ''gemini-pro'' parts])
        \<and> (getGeminiClient rt ev = Inr k
             \<and> \<not> (form_file fm = None \<and> \<not> truthy_string (form_code fm))
             \<and> build_parts_gemini fm = Inr parts
            \<longrightarrow> POST_gemini rt ev (Inr fm) p =
                  ((case read_content rt (Inr text) of
                      Inl t \<Rightarrow> outer_catch rt ev t
                    | Inr d \<Rightarrow> ok_response d),
                   [GeminiCall ''gemini-1.5-flash'' parts, GeminiCall ''gemini-1.5-pro'' parts,
                    GeminiCall ''gemini-pro'' parts])))
   \<and> (p (GeminiCall ''gemini-1.5-flash'' parts) = Resolved r
    \<longrightarrow> tryModels p ev parts 0 0 None [] = (Got r, [GeminiCall ''gemini-1.5-flash'' parts]))
   \<and> (p (GeminiCall ''gemini-1.5-flash'' parts) = Rejected e1
      \<and> not_found (or_string (message e1) ''Gemini API error'')
      \<and> p (GeminiCall ''gemini-1.5-pro'' parts) = Resolved r
    \<longrightarrow> tryModels p ev parts 0 0 None [] =
          (Got r, [GeminiCall ''gemini-1.5-flash'' parts, GeminiCall ''gemini-1.5-pro'' parts]))"
  by (auto simp add: tryModels.simps POST_gemini_def split: sum.splits)

theorem fallback_order_witness:
  "POST_gemini example_runtime example_env (Inr (code_only ''print(x)''))
       (example_provider ''gemini-pro'' unknown_model canonical_reply) =
     (ok_response \<lparr>errorExplanation = JStr ''x is undefined'',
                   reasoning = JStr ''x was never assigned'',
                   fixedCode = JStr ''x = 1''\<rparr>,
      [GeminiCall ''gemini-1.5-flash''
         [Text (systemPrompt_gemini @ [newline, newline] @ code_instruction ''print(x)'')],
       GeminiCall ''gemini-1.5-pro''
         [Text (systemPrompt_gemini @ [newline, newline] @ code_instruction ''print(x)'')],
       GeminiCall ''gemini-pro''
         [Text (systemPrompt_gemini @ [newline, newline] @ code_instruction ''print(x)'')]])
   \<and> tryModels (example_provider ''gemini-1.5-flash'' unknown_model ''fine'') example_env
       [Text ''hi''] 0 0 None []
     = (Got (Inr ''fine''), [GeminiCall ''gemini-1.5-flash'' [Text ''hi'']])
   \<and> tryModels (example_provider ''gemini-1.5-pro'' unknown_model ''fine'') example_env
       [Text ''hi''] 0 0 None []
     = (Got (Inr ''fine''),
        [GeminiCall ''gemini-1.5-flash'' [Text ''hi''], GeminiCall ''gemini-1.5-pro'' [Text ''hi'']])"
proof -
  let ?parts = "[Text (systemPrompt_gemini @ [newline, newline] @ code_instruction ''print(x)'')]"
  have 1: "build_parts_gemini (code_only ''print(x)'') = Inr ?parts"
    by (simp add: build_code_only)
  have 2: "read_content example_runtime (Inr canonical_reply) =
      Inr \<lparr>errorExplanation = JStr ''x is undefined'',
           reasoning = JStr ''x was never assigned'', fixedCode = JStr ''x = 1''\<rparr>"
    by (simp add: read_content_def replies_nonempty recover_canonical_reply)
  show ?thesis
    using
      fallback_order [of "example_provider ''gemini-pro'' unknown_model canonical_reply" ?parts
        unknown_model unknown_model canonical_reply example_env example_runtime
        "''AIzaSyExampleExampleExampleExample000''" "code_only ''print(x)''" "Inr ''fine''"]
      fallback_order [of "example_provider ''gemini-1.5-flash'' unknown_model ''fine''"
        "[Text ''hi'']" unknown_model unknown_model "''fine''" example_env example_runtime
        "''AIzaSyExampleExampleExampleExample000''" "code_only ''print(x)''" "Inr ''fine''"]
      fallback_order [of "example_provider ''gemini-1.5-pro'' unknown_model ''fine''"
        "[Text ''hi'']" unknown_model unknown_model "''fine''" example_env example_runtime
        "''AIzaSyExampleExampleExampleExample000''" "code_only ''print(x)''" "Inr ''fine''"]
      1 2 unknown_model_not_found getGeminiClient_example [of example_runtime]
      has_code [of "CHR ''p''" "''rint(x)''"]
    by (simp add: example_provider_def)
qed

text \<open>
  C2. When the first candidate is rejected with an error whose message contains
  neither \<open>not found\<close> nor \<open>404\<close>, the loop makes that one call and returns the
  error response at once: its text is \<open>Gemini API error:\<close> followed by the
  message, its status lies between 400 and 599, and it is the response of the
  whole request. The same holds at the second candidate: an error of another
  kind there ends the request after two calls.
\<close>

theorem fallback_stop:
  "(p (GeminiCall ''gemini-1.5-flash'' parts) = Rejected e
      \<and> \<not> not_found (or_string (message e) ''Gemini API error'')
    \<longrightarrow> tryModels p ev parts 0 0 None [] =
          (Returned (gemini_failure ev e), [GeminiCall ''gemini-1.5-flash'' parts])
        \<and> resp_body (gemini_failure ev e) =
            ErrorBody (''Gemini API error: '' @ or_string (message e) ''Gemini API error'')
              (if development ev then stack e else None)
        \<and> 400 \<le> resp_status (gemini_failure ev e) \<and> resp_status (gemini_failure ev e) < 600
        \<and> (getGeminiClient rt ev = Inr k
             \<and> \<not> (form_file fm = None \<and> \<not> truthy_string (form_code fm))
             \<and> build_parts_gemini fm = Inr parts
            \<longrightarrow> POST_gemini rt ev (Inr fm) p =
                  (gemini_failure ev e, [GeminiCall ''gemini-1.5-flash'' parts])))
   \<and> (p (GeminiCall ''gemini-1.5-flash'' parts) = Rejected e1
      \<and> not_found (or_string (message e1) ''Gemini API error'')
      \<and> p (GeminiCall ''gemini-1.5-pro'' parts) = Rejected e
      \<and> \<not> not_found (or_string (message e) ''Gemini API error'')
    \<longrightarrow> tryModels p ev parts 0 0 None [] =
          (Returned (gemini_failure ev e),
           [GeminiCall ''gemini-1.5-flash'' parts, GeminiCall ''gemini-1.5-pro'' parts]))"
  by (auto simp add: tryModels.simps POST_gemini_def gemini_failure_def helpfulMessage_def Let_def
        split: option.splits)

theorem fallback_stop_witness:
  "POST_gemini example_runtime example_env (Inr (code_only ''print(x)''))
       (example_provider ''gemini-pro'' quota_exceeded ''fine'') =
     (\<lparr>resp_status = 429,
       resp_body = ErrorBody
         ''Gemini API error: [429 Too Many Requests] Resource has been exhausted'' None\<rparr>,
      [GeminiCall ''gemini-1.5-flash''
         [Text (systemPrompt_gemini @ [newline, newline] @ code_instruction ''print(x)'')]])
   \<and> snd (tryModels
        ((example_provider ''gemini-pro'' unknown_model ''fine'')
           (GeminiCall ''gemini-1.5-pro'' [Text ''hi''] := Rejected quota_exceeded))
        example_env [Text ''hi''] 0 0 None []) =
     [GeminiCall ''gemini-1.5-flash'' [Text ''hi''], GeminiCall ''gemini-1.5-pro'' [Text ''hi'']]"
proof -
  let ?parts = "[Text (systemPrompt_gemini @ [newline, newline] @ code_instruction ''print(x)'')]"
  let ?p = "example_provider ''gemini-pro'' quota_exceeded ''fine''"
  let ?q = "(example_provider ''gemini-pro'' unknown_model ''fine'')
           (GeminiCall ''gemini-1.5-pro'' [Text ''hi''] := Rejected quota_exceeded)"
  have 1: "?p (GeminiCall ''gemini-1.5-flash'' ?parts) = Rejected quota_exceeded"
    by (simp add: example_provider_def)
  have 2: "build_parts_gemini (code_only ''print(x)'') = Inr ?parts"
    by (simp add: build_code_only)
  have 3: "\<not> (form_file (code_only ''print(x)'') = None
              \<and> \<not> truthy_string (form_code (code_only ''print(x)'')))"
    by (simp add: code_only_def truthy_string_def)
  have 4: "?q (GeminiCall ''gemini-1.5-flash'' [Text ''hi'']) = Rejected unknown_model"
    "?q (GeminiCall ''gemini-1.5-pro'' [Text ''hi'']) = Rejected quota_exceeded"
    by (simp_all add: example_provider_def)
  have 5: "gemini_failure example_env quota_exceeded =
      \<lparr>resp_status = 429,
       resp_body = ErrorBody
         ''Gemini API error: [429 Too Many Requests] Resource has been exhausted'' None\<rparr>"
    using quota_exceeded_other
    by (simp add: gemini_failure_def helpfulMessage_def development_def example_env_def
          quota_exceeded_def or_string_def)
  show ?thesis
    using
      fallback_stop [of ?p ?parts quota_exceeded example_env example_runtime
        "''AIzaSyExampleExampleExampleExample000''" "code_only ''print(x)''" unknown_model]
      fallback_stop [of ?q "[Text ''hi'']" quota_exceeded example_env example_runtime
        "''AIzaSyExampleExampleExampleExample000''" "code_only ''print(x)''" unknown_model]
      1 2 3 4 5 quota_exceeded_other unknown_model_not_found getGeminiClient_example
    by simp
qed

subsection \<open>Validation of the request\<close>

text \<open>
  C3. The claim is that a request with no file and no non-blank code, code made
  of white space only included, is turned away with no call to a provider. The
  first check of both handlers reads \<open>!file && !code\<close>, without the \<open>trim\<close> that
  the later \<open>code && code.trim()\<close> applies. Evaluated at the code \<open>' '\<close> (one
  space) and no file, with a provider that resolves the call: the Gemini handler
  calls \<open>gemini-1.5-flash\<close> with the system prompt alone and answers 200, and the
  handler with several providers calls \<open>gemini-2.5-flash\<close> with no part at all and
  answers 200. At the empty string the request is turned away with status 400
  and no call.
\<close>

theorem blank_code_reaches_provider:
  "POST_gemini example_runtime example_env (Inr (code_only '' ''))
       (example_provider ''gemini-1.5-flash'' unknown_model canonical_reply) =
     (ok_response \<lparr>errorExplanation = JStr ''x is undefined'',
                   reasoning = JStr ''x was never assigned'',
                   fixedCode = JStr ''x = 1''\<rparr>,
      [GeminiCall ''gemini-1.5-flash'' [Text (systemPrompt_gemini @ [newline, newline])]])
   \<and> POST_multi example_runtime example_env (Inr (code_only '' ''))
       (example_provider ''gemini-2.5-flash'' unknown_model canonical_reply) =
     (ok_response \<lparr>errorExplanation = JStr ''x is undefined'',
                   reasoning = JStr ''x was never assigned'',
                   fixedCode = JStr ''x = 1''\<rparr>,
      [GeminiCall ''gemini-2.5-flash'' []])
   \<and> POST_gemini example_runtime example_env (Inr (code_only ''''))
       (example_provider ''gemini-1.5-flash'' unknown_model canonical_reply) =
     (json_response ''Please provide either code or a file'' 400, [])"
proof (intro conjI)
  have "POST_gemini example_runtime example_env (Inr (code_only '' ''))
       (example_provider ''gemini-1.5-flash'' unknown_model canonical_reply) =
     ((case read_content example_runtime (Inr canonical_reply) of
         Inl t \<Rightarrow> outer_catch example_runtime example_env t
       | Inr d \<Rightarrow> ok_response d),
      [GeminiCall ''gemini-1.5-flash'' [Text (systemPrompt_gemini @ [newline, newline])]])"
  proof (rule POST_gemini_first)
    show "getGeminiClient example_runtime example_env =
        Inr ''AIzaSyExampleExampleExampleExample000''"
      by (rule getGeminiClient_example)
    show "\<not> (form_file (code_only '' '') = None \<and> \<not> truthy_string (form_code (code_only '' '')))"
      by (rule has_code)
    show "build_parts_gemini (code_only '' '') =
        Inr [Text (systemPrompt_gemini @ [newline, newline])]"
      by (rule build_blank_gemini)
    show "example_provider ''gemini-1.5-flash'' unknown_model canonical_reply
           (GeminiCall ''gemini-1.5-flash'' [Text (systemPrompt_gemini @ [newline, newline])])
          = Resolved (Inr canonical_reply)"
      by (rule example_provider_gemini)
  qed
  then show "POST_gemini example_runtime example_env (Inr (code_only '' ''))
       (example_provider ''gemini-1.5-flash'' unknown_model canonical_reply) =
     (ok_response \<lparr>errorExplanation = JStr ''x is undefined'',
                   reasoning = JStr ''x was never assigned'',
                   fixedCode = JStr ''x = 1''\<rparr>,
      [GeminiCall ''gemini-1.5-flash'' [Text (systemPrompt_gemini @ [newline, newline])]])"
    by (simp add: read_content_def replies_nonempty recover_canonical_reply)
  have "POST_multi example_runtime example_env (Inr (code_only '' ''))
       (example_provider ''gemini-2.5-flash'' unknown_model canonical_reply) =
     ((case read_content example_runtime (Inr canonical_reply) of
         Inl t \<Rightarrow> ai_catch example_runtime t
       | Inr d \<Rightarrow> ok_response d),
      [GeminiCall ''gemini-2.5-flash'' []])"
  proof (rule POST_multi_default)
    show "config_provider example_env = ''gemini''"
      by (rule example_env_config(1))
    show "truthy_string (GEMINI_API_KEY example_env)"
      by (rule example_env_config(2))
    show "\<not> (form_file (code_only '' '') = None \<and> \<not> truthy_string (form_code (code_only '' '')))"
      by (rule has_code)
    show "build_parts_multi (code_only '' '') = Inr ([], [])"
      by (rule build_blank_multi)
    show "example_provider ''gemini-2.5-flash'' unknown_model canonical_reply
           (GeminiCall ''gemini-2.5-flash'' []) = Resolved (Inr canonical_reply)"
      by (rule example_provider_gemini)
  qed
  then show "POST_multi example_runtime example_env (Inr (code_only '' ''))
       (example_provider ''gemini-2.5-flash'' unknown_model canonical_reply) =
     (ok_response \<lparr>errorExplanation = JStr ''x is undefined'',
                   reasoning = JStr ''x was never assigned'',
                   fixedCode = JStr ''x = 1''\<rparr>,
      [GeminiCall ''gemini-2.5-flash'' []])"
    by (simp add: read_content_def replies_nonempty recover_canonical_reply)
  show "POST_gemini example_runtime example_env (Inr (code_only ''''))
       (example_provider ''gemini-1.5-flash'' unknown_model canonical_reply) =
     (json_response ''Please provide either code or a file'' 400, [])"
    by (simp add: POST_gemini_def getGeminiClient_example code_only_def truthy_string_def)
qed

text \<open>
  C4, as the code has it. A file whose declared type begins with \<open>image/\<close> and
  whose buffer is longer than \<open>10 * 1024 * 1024\<close> bytes, and any other file whose
  buffer is longer than \<open>1024 * 1024\<close> bytes, ends the request with status 400, an
  error text that is \<open>File is too large. Maximum size: 10MB\<close>, respectively
  \<open>1MB\<close>, and so contains the limit, and no call to a provider: always in the
  handler with several providers, and in the Gemini handler when its client
  can be built. A file at or below its ceiling passes: both handlers go on to
  build the parts. The Gemini handler builds its client before it reads the
  form: when that fails it answers 500 with the client's error, whatever the
  file, and calls no provider.
\<close>

theorem artifact_size_limits:
  "form_file fm = Some f \<longrightarrow>
     (startsWith (file_type f) ''image/'' \<and> buffer_length f > 10 * 1024 * 1024 \<longrightarrow>
        POST_multi rt ev (Inr fm) p =
          (\<lparr>resp_status = 400,
            resp_body = ErrorBody ''File is too large. Maximum size: 10MB'' None\<rparr>, [])
        \<and> error_includes (fst (POST_multi rt ev (Inr fm) p)) ''10MB''
        \<and> (getGeminiClient rt ev = Inr k \<longrightarrow>
             POST_gemini rt ev (Inr fm) p =
               (\<lparr>resp_status = 400,
                 resp_body = ErrorBody ''File is too large. Maximum size: 10MB'' None\<rparr>, [])
             \<and> error_includes (fst (POST_gemini rt ev (Inr fm) p)) ''10MB''))
   \<and> (\<not> startsWith (file_type f) ''image/'' \<and> buffer_length f > 1024 * 1024 \<longrightarrow>
        POST_multi rt ev (Inr fm) p =
          (\<lparr>resp_status = 400,
            resp_body = ErrorBody ''File is too large. Maximum size: 1MB'' None\<rparr>, [])
        \<and> error_includes (fst (POST_multi rt ev (Inr fm) p)) ''1MB''
        \<and> (getGeminiClient rt ev = Inr k \<longrightarrow>
             POST_gemini rt ev (Inr fm) p =
               (\<lparr>resp_status = 400,
                 resp_body = ErrorBody ''File is too large. Maximum size: 1MB'' None\<rparr>, [])
             \<and> error_includes (fst (POST_gemini rt ev (Inr fm) p)) ''1MB''))
   \<and> (buffer_length f
         \<le> (if startsWith (file_type f) ''image/'' then 10 * 1024 * 1024 else 1024 * 1024)
        \<longrightarrow> (\<exists>ps. build_parts_gemini fm = Inr ps) \<and> (\<exists>ps. build_parts_multi fm = Inr ps))
   \<and> (getGeminiClient rt ev = Inl e \<longrightarrow>
        POST_gemini rt ev (Inr fm) p =
          (\<lparr>resp_status = 500,
            resp_body = ErrorBody (or_string (message e) ''Failed to initialize Gemini client'')
                          None\<rparr>, []))"
proof (intro impI conjI)
  assume f: "form_file fm = Some f"
  { assume "startsWith (file_type f) ''image/'' \<and> 10 * 1024 * 1024 < buffer_length f"
    then have big: "buffer_length f > maxSize f" and img: "startsWith (file_type f) ''image/''"
      by (simp_all add: maxSize_cases)
    show m: "POST_multi rt ev (Inr fm) p =
          (\<lparr>resp_status = 400,
            resp_body = ErrorBody ''File is too large. Maximum size: 10MB'' None\<rparr>, [])"
      using img by (simp add: POST_multi_large [OF f big] too_large_record)
    show "error_includes (fst (POST_multi rt ev (Inr fm) p)) ''10MB''"
      by (simp add: m error_includes_def)
    { assume "getGeminiClient rt ev = Inr k"
      then show g: "POST_gemini rt ev (Inr fm) p =
          (\<lparr>resp_status = 400,
            resp_body = ErrorBody ''File is too large. Maximum size: 10MB'' None\<rparr>, [])"
        using img by (simp add: POST_gemini_large [OF f big] too_large_record)
      show "error_includes (fst (POST_gemini rt ev (Inr fm) p)) ''10MB''"
        by (simp add: g error_includes_def) } }
  { assume "\<not> startsWith (file_type f) ''image/'' \<and> 1024 * 1024 < buffer_length f"
    then have big: "buffer_length f > maxSize f" and img: "\<not> startsWith (file_type f) ''image/''"
      by (simp_all add: maxSize_cases)
    show m: "POST_multi rt ev (Inr fm) p =
          (\<lparr>resp_status = 400,
            resp_body = ErrorBody ''File is too large. Maximum size: 1MB'' None\<rparr>, [])"
      using img by (simp add: POST_multi_large [OF f big] too_large_record)
    show "error_includes (fst (POST_multi rt ev (Inr fm) p)) ''1MB''"
      by (simp add: m error_includes_def)
    { assume "getGeminiClient rt ev = Inr k"
      then show g: "POST_gemini rt ev (Inr fm) p =
          (\<lparr>resp_status = 400,
            resp_body = ErrorBody ''File is too large. Maximum size: 1MB'' None\<rparr>, [])"
        using img by (simp add: POST_gemini_large [OF f big] too_large_record)
      show "error_includes (fst (POST_gemini rt ev (Inr fm) p)) ''1MB''"
        by (simp add: g error_includes_def) } }
  { assume "buffer_length f
        \<le> (if startsWith (file_type f) ''image/'' then 10 * 1024 * 1024 else 1024 * 1024)"
    then have fits: "buffer_length f \<le> maxSize f"
      by (simp add: maxSize_cases split: if_splits)
    show "\<exists>ps. build_parts_gemini fm = Inr ps"
      by (rule build_gemini_fits [OF f fits])
    show "\<exists>ps. build_parts_multi fm = Inr ps"
      by (rule build_multi_fits [OF f fits]) }
  { assume "getGeminiClient rt ev = Inl e"
    then show "POST_gemini rt ev (Inr fm) p =
          (\<lparr>resp_status = 500,
            resp_body = ErrorBody (or_string (message e) ''Failed to initialize Gemini client'')
                          None\<rparr>, [])"
      by (rule POST_gemini_no_client) }
qed

theorem artifact_size_limits_witness:
  "POST_multi example_runtime example_env
       (Inr (file_only (example_upload ''image/png'' 10485761)))
       (example_provider ''gemini-pro'' unknown_model ''fine'') =
     (\<lparr>resp_status = 400,
       resp_body = ErrorBody ''File is too large. Maximum size: 10MB'' None\<rparr>, [])
   \<and> POST_gemini example_runtime example_env
       (Inr (file_only (example_upload ''image/png'' 10485761)))
       (example_provider ''gemini-pro'' unknown_model ''fine'') =
     (\<lparr>resp_status = 400,
       resp_body = ErrorBody ''File is too large. Maximum size: 10MB'' None\<rparr>, [])
   \<and> POST_multi example_runtime example_env
       (Inr (file_only (example_upload ''text/plain'' 1048577)))
       (example_provider ''gemini-pro'' unknown_model ''fine'') =
     (\<lparr>resp_status = 400,
       resp_body = ErrorBody ''File is too large. Maximum size: 1MB'' None\<rparr>, [])
   \<and> POST_gemini example_runtime example_env
       (Inr (file_only (example_upload ''text/plain'' 1048577)))
       (example_provider ''gemini-pro'' unknown_model ''fine'') =
     (\<lparr>resp_status = 400,
       resp_body = ErrorBody ''File is too large. Maximum size: 1MB'' None\<rparr>, [])
   \<and> (\<exists>ps. build_parts_gemini (file_only (example_upload ''image/png'' 10485760)) = Inr ps)
   \<and> (\<exists>ps. build_parts_multi (file_only (example_upload ''text/plain'' 1048576)) = Inr ps)
   \<and> POST_gemini example_runtime no_key_env
       (Inr (file_only (example_upload ''text/plain'' 1048577)))
       (example_provider ''gemini-pro'' unknown_model ''fine'') =
     (\<lparr>resp_status = 500, resp_body = ErrorBody errorMsg None\<rparr>, [])"
  using
    artifact_size_limits [of "file_only (example_upload ''image/png'' 10485761)"
      "example_upload ''image/png'' 10485761" example_runtime example_env
      "example_provider ''gemini-pro'' unknown_model ''fine''"
      "''AIzaSyExampleExampleExampleExample000''" "new_Error example_runtime errorMsg"]
    artifact_size_limits [of "file_only (example_upload ''text/plain'' 1048577)"
      "example_upload ''text/plain'' 1048577" example_runtime example_env
      "example_provider ''gemini-pro'' unknown_model ''fine''"
      "''AIzaSyExampleExampleExampleExample000''" "new_Error example_runtime errorMsg"]
    artifact_size_limits [of "file_only (example_upload ''image/png'' 10485760)"
      "example_upload ''image/png'' 10485760" example_runtime example_env
      "example_provider ''gemini-pro'' unknown_model ''fine''"
      "''AIzaSyExampleExampleExampleExample000''" "new_Error example_runtime errorMsg"]
    artifact_size_limits [of "file_only (example_upload ''text/plain'' 1048576)"
      "example_upload ''text/plain'' 1048576" example_runtime example_env
      "example_provider ''gemini-pro'' unknown_model ''fine''"
      "''AIzaSyExampleExampleExampleExample000''" "new_Error example_runtime errorMsg"]
    artifact_size_limits [of "file_only (example_upload ''text/plain'' 1048577)"
      "example_upload ''text/plain'' 1048577" example_runtime no_key_env
      "example_provider ''gemini-pro'' unknown_model ''fine''"
      "''AIzaSyExampleExampleExampleExample000''" "new_Error example_runtime errorMsg"]
    getGeminiClient_example [of example_runtime] getGeminiClient_no_key [of example_runtime]
    errorMsg_nonempty
  by (simp add: file_only_def example_upload_def new_Error_def or_string_def)

text \<open>
  C4 as stated, for every oversized file, fails in the Gemini handler when no
  key is configured: an image of \<open>10 * 1024 * 1024 + 1\<close> bytes is answered with
  status 500 and the text about the missing key, which does not name the limit.
\<close>

theorem artifact_size_limits_counterexample:
  "startsWith (file_type (example_upload ''image/png'' 10485761)) ''image/''
   \<and> buffer_length (example_upload ''image/png'' 10485761) > 10 * 1024 * 1024
   \<and> POST_gemini example_runtime no_key_env
       (Inr (file_only (example_upload ''image/png'' 10485761)))
       (example_provider ''gemini-pro'' unknown_model ''fine'') =
     (\<lparr>resp_status = 500, resp_body = ErrorBody errorMsg None\<rparr>, [])
   \<and> \<not> error_includes \<lparr>resp_status = 500, resp_body = ErrorBody errorMsg None\<rparr> ''10MB''"
  using POST_gemini_no_client [OF getGeminiClient_no_key, of example_runtime
      "Inr (file_only (example_upload ''image/png'' 10485761))"
      "example_provider ''gemini-pro'' unknown_model ''fine''"]
    errorMsg_nonempty errorMsg_no_limit
  by (simp add: example_upload_def new_Error_def or_string_def error_includes_def)

subsection \<open>The prompt for a file together with code\<close>




subsection \<open>Result recovery\<close>

text \<open>
  C5. The claim is that recovery returns a result for every raw text and never
  lets a parse error through. The second \<open>JSON.parse\<close> stands in the \<open>catch\<close> block
  of the first, unguarded. Evaluated at the raw text
  \<open>Wrap the name in braces: {x}\<close>: the text is not JSON, the brace expression
  matches \<open>{x}\<close>, and \<open>JSON.parse\<close> throws on it; the Gemini handler answers 500
  with the engine's message, the other handler answers with its provider error.
  At the raw text \<open>null\<close> the parse succeeds and reading \<open>result.errorExplanation\<close>
  throws.
\<close>

theorem recovery_throws:
  "recover braces_reply = Inl (SyntaxError ''{x}'')
   \<and> recover ''null'' = Inl (TypeError ''errorExplanation'')
   \<and> POST_gemini example_runtime example_env (Inr (code_only ''print(x)''))
       (example_provider ''gemini-1.5-flash'' unknown_model braces_reply) =
     (\<lparr>resp_status = 500, resp_body = ErrorBody ''Unexpected token in JSON'' None\<rparr>,
      [GeminiCall ''gemini-1.5-flash''
         [Text (systemPrompt_gemini @ [newline, newline] @ code_instruction ''print(x)'')]])
   \<and> fst (POST_multi example_runtime example_env (Inr (code_only ''print(x)''))
       (example_provider ''gemini-2.5-flash'' unknown_model braces_reply)) =
     ai_catch example_runtime (SyntaxError ''{x}'')"
proof (intro conjI)
  show "recover braces_reply = Inl (SyntaxError ''{x}'')"
    by (rule recover_braces_reply)
  show "recover ''null'' = Inl (TypeError ''errorExplanation'')"
    by (rule recover_null)
  show "POST_gemini example_runtime example_env (Inr (code_only ''print(x)''))
       (example_provider ''gemini-1.5-flash'' unknown_model braces_reply) =
     (\<lparr>resp_status = 500, resp_body = ErrorBody ''Unexpected token in JSON'' None\<rparr>,
      [GeminiCall ''gemini-1.5-flash''
         [Text (systemPrompt_gemini @ [newline, newline] @ code_instruction ''print(x)'')]])"
    by (simp add: POST_gemini_print read_content_def replies_nonempty
          recover_braces_reply)
       (simp add: outer_catch_def example_env_config example_runtime_def new_Error_def
          or_string_def)
  have "build_parts_multi (code_only ''print(x)'') =
      Inr ([Text (systemPrompt @ [newline, newline] @ code_instruction ''print(x)'')],
           code_instruction ''print(x)'')"
    by (simp add: build_parts_multi_def file_step_multi_def code_step_multi_def code_only_def
          Let_def code_instruction_def)
  then have "POST_multi example_runtime example_env (Inr (code_only ''print(x)''))
       (example_provider ''gemini-2.5-flash'' unknown_model braces_reply) =
     ((case read_content example_runtime (Inr braces_reply) of
         Inl t \<Rightarrow> ai_catch example_runtime t
       | Inr d \<Rightarrow> ok_response d),
      [GeminiCall ''gemini-2.5-flash''
         [Text (systemPrompt @ [newline, newline] @ code_instruction ''print(x)'')]])"
    using example_env_config(1) example_env_config(2) has_code [of "CHR ''p''" "''rint(x)''"]
      example_provider_gemini
    by (intro POST_multi_default) auto
  then show "fst (POST_multi example_runtime example_env (Inr (code_only ''print(x)''))
       (example_provider ''gemini-2.5-flash'' unknown_model braces_reply)) =
     ai_catch example_runtime (SyntaxError ''{x}'')"
    by (simp add: read_content_def replies_nonempty recover_braces_reply)
qed

text \<open>
  C6, as the code has it. When the raw text parses to an object whose members
  \<open>errorExplanation\<close>, \<open>reasoning\<close> and \<open>fixedCode\<close> are truthy (a string that is
  not empty, a number that is not zero, \<open>true\<close>, an array, an object), recovery
  returns exactly these three values.
\<close>

theorem round_trip_truthy:
  "JSON_parse content = Inr (JObj kvs)
   \<and> members kvs ''errorExplanation'' = Some a \<and> truthy a
   \<and> members kvs ''reasoning'' = Some b \<and> truthy b
   \<and> members kvs ''fixedCode'' = Some c \<and> truthy c
   \<longrightarrow> recover content = Inr \<lparr>errorExplanation = a, reasoning = b, fixedCode = c\<rparr>"
  by (simp add: recover_def parse_result_parsed debugResult_object truthy_members_def)

theorem round_trip_truthy_witness:
  "recover canonical_reply = Inr
     \<lparr>errorExplanation = JStr ''x is undefined'',
      reasoning = JStr ''x was never assigned'',
      fixedCode = JStr ''x = 1''\<rparr>"
  using round_trip_truthy [of canonical_reply
      "[(''errorExplanation'', JStr ''x is undefined''),
        (''reasoning'', JStr ''x was never assigned''),
        (''fixedCode'', JStr ''x = 1'')]"
      "JStr ''x is undefined''" "JStr ''x was never assigned''" "JStr ''x = 1''"]
    parse_canonical_reply
  by (simp add: members_def)

text \<open>
  C6 as stated, with the empty string among the values, fails: for
  \<open>{"errorExplanation":"","reasoning":"B","fixedCode":"C"}\<close> recovery returns the
  placeholder \<open>No error explanation provided\<close>, not the empty string.
\<close>

theorem round_trip_counterexample:
  "JSON_parse empty_field_reply = Inr (JObj
     [(''errorExplanation'', JStr ''''), (''reasoning'', JStr ''B''), (''fixedCode'', JStr ''C'')])
   \<and> recover empty_field_reply = Inr
     \<lparr>errorExplanation = JStr ''No error explanation provided'',
      reasoning = JStr ''B'', fixedCode = JStr ''C''\<rparr>
   \<and> recover empty_field_reply \<noteq> Inr
     \<lparr>errorExplanation = JStr '''', reasoning = JStr ''B'', fixedCode = JStr ''C''\<rparr>"
  by (simp add: parse_empty_field_reply recover_def parse_result_parsed debugResult_object
        truthy_members_def members_def)

text \<open>
  C7, as the code has it. On an object, each field is the value of the first
  key of its list whose member is truthy, else the placeholder:
  \<open>errorExplanation\<close> from \<open>errorExplanation\<close>, \<open>explanation\<close>; \<open>reasoning\<close> from
  \<open>reasoning\<close>, \<open>reason\<close>; \<open>fixedCode\<close> from \<open>fixedCode\<close>, \<open>code\<close>, \<open>correctedCode\<close>.
  When every member of the object is truthy this is the first key present, as
  the specification words it. The text
  \<open>{"explanation":"X","reason":"Y","code":"Z"}\<close> yields \<open>X\<close>, \<open>Y\<close>, \<open>Z\<close>.
\<close>

theorem alias_resolution:
  "debugResult (JObj kvs) = Inr
     \<lparr>errorExplanation = first_present (truthy_members kvs)
         [''errorExplanation'', ''explanation''] ''No error explanation provided'',
      reasoning = first_present (truthy_members kvs)
         [''reasoning'', ''reason''] ''No reasoning provided'',
      fixedCode = first_present (truthy_members kvs)
         [''fixedCode'', ''code'', ''correctedCode''] ''No fixed code provided''\<rparr>
   \<and> ((\<forall>k v. members kvs k = Some v \<longrightarrow> truthy v) \<longrightarrow>
        debugResult (JObj kvs) = Inr
          \<lparr>errorExplanation = first_present (members kvs)
              [''errorExplanation'', ''explanation''] ''No error explanation provided'',
           reasoning = first_present (members kvs)
              [''reasoning'', ''reason''] ''No reasoning provided'',
           fixedCode = first_present (members kvs)
              [''fixedCode'', ''code'', ''correctedCode''] ''No fixed code provided''\<rparr>)
   \<and> recover alias_reply =
        Inr \<lparr>errorExplanation = JStr ''X'', reasoning = JStr ''Y'', fixedCode = JStr ''Z''\<rparr>"
proof (intro conjI impI)
  show "debugResult (JObj kvs) = Inr
     \<lparr>errorExplanation = first_present (truthy_members kvs)
         [''errorExplanation'', ''explanation''] ''No error explanation provided'',
      reasoning = first_present (truthy_members kvs)
         [''reasoning'', ''reason''] ''No reasoning provided'',
      fixedCode = first_present (truthy_members kvs)
         [''fixedCode'', ''code'', ''correctedCode''] ''No fixed code provided''\<rparr>"
    by (rule debugResult_object)
  show "recover alias_reply =
        Inr \<lparr>errorExplanation = JStr ''X'', reasoning = JStr ''Y'', fixedCode = JStr ''Z''\<rparr>"
    by (simp add: recover_def parse_result_parsed [OF parse_alias_reply] debugResult_object
          truthy_members_def members_def)
next
  assume "\<forall>k v. members kvs k = Some v \<longrightarrow> truthy v"
  then have "truthy_members kvs = members kvs"
    by (rule truthy_members_all)
  then show "debugResult (JObj kvs) = Inr
          \<lparr>errorExplanation = first_present (members kvs)
              [''errorExplanation'', ''explanation''] ''No error explanation provided'',
           reasoning = first_present (members kvs)
              [''reasoning'', ''reason''] ''No reasoning provided'',
           fixedCode = first_present (members kvs)
              [''fixedCode'', ''code'', ''correctedCode''] ''No fixed code provided''\<rparr>"
    using debugResult_object [of kvs] by simp
qed

theorem alias_resolution_witness:
  "debugResult (JObj [(''explanation'', JStr ''X''), (''reason'', JStr ''Y''), (''code'', JStr ''Z'')])
     = Inr \<lparr>errorExplanation = JStr ''X'', reasoning = JStr ''Y'', fixedCode = JStr ''Z''\<rparr>
   \<and> debugResult (JObj [(''fixedCode'', JStr ''C''), (''reason'', JStr ''Y'')])
     = Inr \<lparr>errorExplanation = JStr ''No error explanation provided'', reasoning = JStr ''Y'',
            fixedCode = JStr ''C''\<rparr>"
proof -
  have 1: "\<forall>k v. members [(''explanation'', JStr ''X''), (''reason'', JStr ''Y''), (''code'', JStr ''Z'')] k
              = Some v \<longrightarrow> truthy v"
    by (auto simp add: members_def split: if_splits)
  have 2: "\<forall>k v. members [(''fixedCode'', JStr ''C''), (''reason'', JStr ''Y'')] k
              = Some v \<longrightarrow> truthy v"
    by (auto simp add: members_def split: if_splits)
  show ?thesis
    using alias_resolution
        [of "[(''explanation'', JStr ''X''), (''reason'', JStr ''Y''), (''code'', JStr ''Z'')]"]
      alias_resolution [of "[(''fixedCode'', JStr ''C''), (''reason'', JStr ''Y'')]"] 1 2
    by (simp add: members_def truthy_members_def)
qed

text \<open>
  C7 as stated, with the first key present, fails when that key holds a falsy
  value: for \<open>{"errorExplanation":"","explanation":"X"}\<close> the first key present
  is \<open>errorExplanation\<close>, with the empty string, and recovery returns \<open>X\<close>.
\<close>

theorem alias_resolution_counterexample:
  "JSON_parse shadowed_reply =
     Inr (JObj [(''errorExplanation'', JStr ''''), (''explanation'', JStr ''X'')])
   \<and> first_present (members [(''errorExplanation'', JStr ''''), (''explanation'', JStr ''X'')])
        [''errorExplanation'', ''explanation''] ''No error explanation provided'' = JStr ''''
   \<and> recover shadowed_reply =
       Inr \<lparr>errorExplanation = JStr ''X'', reasoning = JStr ''No reasoning provided'',
             fixedCode = JStr ''No fixed code provided''\<rparr>"
  by (simp add: parse_shadowed_reply recover_def parse_result_parsed debugResult_object
        truthy_members_def members_def)

text \<open>
  C10. When the raw text parses as JSON, the parsed value is the candidate: no
  later step runs. A parsed value that is neither an object nor \<open>null\<close> (a
  number, a string, \<open>true\<close>, \<open>false\<close>, an array) has none of the keys, so the
  result is the three placeholders whatever the text was. For \<open>null\<close> the first
  property read throws a \<open>TypeError\<close>.
\<close>

theorem scalar_recovery:
  "JSON_parse content = Inr v \<longrightarrow>
     parse_result content = Inr v
     \<and> (\<not> is_object v \<and> v \<noteq> JNull \<longrightarrow> recover content = Inr placeholders)
     \<and> (v = JNull \<longrightarrow> recover content = Inl (TypeError ''errorExplanation''))"
  by (auto simp add: recover_def parse_result_parsed debugResult_scalar debugResult_null)

theorem scalar_recovery_witness:
  \<open>recover ''42'' = Inr placeholders \<and> recover ''"abc"'' = Inr placeholders
   \<and> recover ''true'' = Inr placeholders \<and> recover ''false'' = Inr placeholders
   \<and> recover ''[1]'' = Inr placeholders
   \<and> recover ''null'' = Inl (TypeError ''errorExplanation'')\<close>
  using scalar_recovery [of "''42''" "JNum 42"]
    scalar_recovery [of \<open>''"abc"''\<close> "JStr ''abc''"]
    scalar_recovery [of "''true''" "JBool True"]
    scalar_recovery [of "''false''" "JBool False"]
    scalar_recovery [of "''[1]''" "JArr [JNum 1]"]
    scalar_recovery [of "''null''" "JNull"]
    parse_examples
  by simp

subsection \<open>Shape of a successful response\<close>

text \<open>
  C9. The claim is that a successful response has the three fields
  \<open>errorExplanation\<close>, \<open>reasoning\<close> and \<open>fixedCode\<close>, each a string, also when the
  backend put a number under one of the keys. \<open>debugResult\<close> copies
  \<open>result.key || ...\<close> with no conversion. Evaluated at the reply
  \<open>{"errorExplanation":5,"reasoning":"B","fixedCode":"C"}\<close>: the Gemini handler
  answers 200 with the number 5 as \<open>errorExplanation\<close>, which is no string.
\<close>

theorem number_field_not_string:
  "POST_gemini example_runtime example_env (Inr (code_only ''print(x)''))
       (example_provider ''gemini-1.5-flash'' unknown_model number_reply) =
     (\<lparr>resp_status = 200,
       resp_body = ResultBody
         \<lparr>errorExplanation = JNum 5, reasoning = JStr ''B'', fixedCode = JStr ''C''\<rparr>\<rparr>,
      [GeminiCall ''gemini-1.5-flash''
         [Text (systemPrompt_gemini @ [newline, newline] @ code_instruction ''print(x)'')]])
   \<and> \<not> is_string (JNum 5)"
  by (simp add: POST_gemini_print read_content_def replies_nonempty
        recover_number_reply ok_response_def)

end
